theory Spec2Isabelle
  imports Main
begin

section \<open>JavaScript values and objects\<close>

text \<open>
  The service of \<^verbatim>\<open>src/services/JobService.js\<close> works on plain JavaScript objects. An
  object is an association list from property names to values; a property that is
  not in the list is \<^verbatim>\<open>undefined\<close>. Numbers are the integers the request schemas admit.
\<close>

datatype jsval =
    JNull
  | JBool bool
  | JNum int
  | JStr string
  | JArr "jsval list"
  | JObj "(string \<times> jsval) list"

type_synonym obj = "(string \<times> jsval) list"

definition get_prop :: "obj \<Rightarrow> string \<Rightarrow> jsval option" where
  "get_prop ob k = map_of ob k"

fun set_prop :: "string \<Rightarrow> jsval \<Rightarrow> obj \<Rightarrow> obj" where
  "set_prop k v [] = [(k, v)]"
| "set_prop k v ((k', v') # ps) =
     (if k = k' then (k, v) # ps else (k', v') # set_prop k v ps)"

text \<open>Object spread and instance update: every property of the second object is set in the first.\<close>

definition assign :: "obj \<Rightarrow> obj \<Rightarrow> obj" where
  "assign target src = foldl (\<lambda>acc (k, v). set_prop k v acc) target src"

text \<open>JavaScript truthiness of a property read (\<open>None\<close> is \<^verbatim>\<open>undefined\<close>).\<close>

fun truthy :: "jsval option \<Rightarrow> bool" where
  "truthy None = False"
| "truthy (Some JNull) = False"
| "truthy (Some (JBool b)) = b"
| "truthy (Some (JNum n)) = (n \<noteq> 0)"
| "truthy (Some (JStr s)) = (s \<noteq> [])"
| "truthy (Some (JArr xs)) = True"
| "truthy (Some (JObj ps)) = True"

text \<open>\<^verbatim>\<open>_.uniq\<close>: the first occurrence of every element, in order.\<close>

fun uniq :: "'a list \<Rightarrow> 'a list" where
  "uniq [] = []"
| "uniq (x # xs) = x # uniq (filter (\<lambda>y. y \<noteq> x) xs)"

text \<open>\<^verbatim>\<open>_.difference\<close>: the elements of the first list that are not in the second.\<close>

definition difference :: "'a list \<Rightarrow> 'a list \<Rightarrow> 'a list" where
  "difference xs ys = filter (\<lambda>x. x \<notin> set ys) xs"

text \<open>
  Rendering of an identifier inside a message. The identifiers the schemas admit are
  strings; other values have no rendering of their own here.
\<close>

fun str_of :: "jsval \<Rightarrow> string" where
  "str_of (JStr s) = s"
| "str_of (JBool b) = (if b then ''true'' else ''false'')"
| "str_of v = []"

fun join_comma :: "string list \<Rightarrow> string" where
  "join_comma [] = []"
| "join_comma [x] = x"
| "join_comma (x # y # ys) = x @ '','' @ join_comma (y # ys)"

section \<open>Errors\<close>

text \<open>
  An error carries the fields the service inspects: \<^verbatim>\<open>httpStatus\<close> (set by the errors of
  \<^verbatim>\<open>common/errors\<close>) and \<^verbatim>\<open>status\<close> (set by the HTTP client used for skill lookups).
\<close>

datatype error =
  Error (errName: string) (message: string) (httpStatus: "nat option") (err_status: "nat option")

definition FORBIDDEN :: nat where "FORBIDDEN = 403"
definition NOT_FOUND :: nat where "NOT_FOUND = 404"
definition BAD_REQUEST :: nat where "BAD_REQUEST = 400"

text \<open>
  Modelled from the spec: \<^verbatim>\<open>common/errors\<close> is not among the sources. The taxonomy of the
  spec (Forbidden, NotFound, BadRequest) is taken with the HTTP status the service tests
  in \<^verbatim>\<open>getJob\<close> (\<^verbatim>\<open>err.httpStatus === HttpStatus.FORBIDDEN\<close>).
\<close>

definition ForbiddenError :: "string \<Rightarrow> error" where
  "ForbiddenError msg = Error ''ForbiddenError'' msg (Some FORBIDDEN) None"

definition NotFoundError :: "string \<Rightarrow> error" where
  "NotFoundError msg = Error ''NotFoundError'' msg (Some NOT_FOUND) None"

definition BadRequestError :: "string \<Rightarrow> error" where
  "BadRequestError msg = Error ''BadRequestError'' msg (Some BAD_REQUEST) None"

text \<open>The runtime's error for a method call on a value that has no such method.\<close>

definition TypeError :: "string \<Rightarrow> error" where
  "TypeError msg = Error ''TypeError'' msg None None"

section \<open>Callers, index responses and the relational filter\<close>

record user =
  userId :: int
  hasManagePermission :: bool
  isMachine :: bool
  isConnectManager :: bool

text \<open>An index hit: \<^verbatim>\<open>_id\<close> and \<^verbatim>\<open>_source\<close>.\<close>

record es_hit =
  hit_id :: string
  hit_source :: obj

text \<open>The body of an index search: \<^verbatim>\<open>hits.total.value\<close> and \<^verbatim>\<open>hits.hits\<close>.\<close>

record es_body =
  total_value :: int
  hits :: "es_hit list"

text \<open>
  The \<^verbatim>\<open>where\<close> object handed to the relational store: the conditions under \<^verbatim>\<open>Op.and\<close>
  and the conditions keyed by a column.
\<close>

datatype where_cond =
    WEq string jsval
  | WIn string "jsval list"
  | WLike string string
  | WContains string "jsval list"

record where_filter =
  op_and :: "where_cond list"
  columns :: "where_cond list"

record find_options =
  f_where :: where_filter
  f_offset :: int
  f_limit :: int
  f_order :: "string \<times> string"

section \<open>The trace of calls and the state\<close>

text \<open>
  Every call that leaves the service is recorded, in order: the index client, the
  relational models, the helper services, the event channel and the logger.
\<close>

datatype call =
    EsGet string string
  | EsSearch string jsval
  | JobFindById string bool
  | JobFindAll find_options
  | JobCreate obj
  | JobUpdate "jsval option" obj
  | JobDestroy "jsval option"
  | RoleFindAll "jsval list"
  | CheckIsMemberOfProject int "jsval option"
  | GetSkillById jsval
  | GetUserId int
  | PostEvent string jsval "jsval option"
  | LogFullError error string
  | LogInfo string string
  | LogDebug string jsval


fun is_db_call :: "call \<Rightarrow> bool" where
  "is_db_call (JobFindById i w) = True"
| "is_db_call (JobFindAll f) = True"
| "is_db_call (JobCreate j) = True"
| "is_db_call (JobUpdate i d) = True"
| "is_db_call (JobDestroy i) = True"
| "is_db_call (RoleFindAll r) = True"
| "is_db_call c = False"


fun is_write_call :: "call \<Rightarrow> bool" where
  "is_write_call (JobCreate j) = True"
| "is_write_call (JobUpdate i d) = True"
| "is_write_call (JobDestroy i) = True"
| "is_write_call c = False"

fun is_publish_call :: "call \<Rightarrow> bool" where
  "is_publish_call (PostEvent t p ol) = True"
| "is_publish_call c = False"

fun is_log_error_call :: "call \<Rightarrow> bool" where
  "is_log_error_call (LogFullError e c) = True"
| "is_log_error_call c = False"

text \<open>
  The relational system of record (the \<^verbatim>\<open>Job\<close> and \<^verbatim>\<open>JobCandidate\<close> tables), the trace,
  and the number of identifiers minted so far.
\<close>

record state =
  jobs :: "obj list"
  jobCandidates :: "obj list"
  calls :: "call list"
  minted :: nat

section \<open>The collaborators\<close>

record config =
  ES_INDEX_JOB :: string
  ES_INDEX_JOB_CANDIDATE :: string
  TAAS_JOB_CREATE_TOPIC :: string
  TAAS_JOB_UPDATE_TOPIC :: string
  TAAS_JOB_DELETE_TOPIC :: string

text \<open>
  What the collaborators answer is a parameter of every operation: the index client, the
  role table, the helper services (\<^verbatim>\<open>common/helper\<close> is not among the sources), the
  identifier generator and the configuration. Every call that is awaited may be
  rejected, so every answer is an error or a value; \<^verbatim>\<open>isDocumentMissingException\<close> is the
  helper's test for the document-missing error of the index.
\<close>

record env =
  cfg :: config
  esGet :: "string \<Rightarrow> string \<Rightarrow> error + es_hit"
  esSearch :: "string \<Rightarrow> jsval \<Rightarrow> error + es_body"
  roleFindAll :: "jsval list \<Rightarrow> error + jsval list"
  isMember :: "int \<Rightarrow> jsval option \<Rightarrow> error + unit"
  skillById :: "jsval \<Rightarrow> error + unit"
  userIdOf :: "int \<Rightarrow> error + jsval"
  publish :: "string \<Rightarrow> jsval \<Rightarrow> jsval option \<Rightarrow> error + unit"
  isDocumentMissingException :: "error \<Rightarrow> bool"
  uuid :: "nat \<Rightarrow> string"

section \<open>Asynchronous operations as state passing with errors\<close>

type_synonym 'a io = "state \<Rightarrow> (error + 'a) \<times> state"

definition io_return :: "'a \<Rightarrow> 'a io" where
  "io_return x s = (Inr x, s)"

definition io_throw :: "error \<Rightarrow> 'a io" where
  "io_throw e s = (Inl e, s)"

definition io_bind :: "'a io \<Rightarrow> ('a \<Rightarrow> 'b io) \<Rightarrow> 'b io" where
  "io_bind m f s = (case m s of (Inl e, s') \<Rightarrow> (Inl e, s') | (Inr x, s') \<Rightarrow> f x s')"

definition io_catch :: "'a io \<Rightarrow> (error \<Rightarrow> 'a io) \<Rightarrow> 'a io" where
  "io_catch m h s = (case m s of (Inl e, s') \<Rightarrow> h e s' | (Inr x, s') \<Rightarrow> (Inr x, s'))"

text \<open>A call to a collaborator: it is recorded, then its answer is returned or raised.\<close>

definition external :: "call \<Rightarrow> error + 'a \<Rightarrow> 'a io" where
  "external c answer s = (answer, s\<lparr>calls := calls s @ [c]\<rparr>)"

text \<open>
  \<^verbatim>\<open>Promise.all\<close> over operations that were all started: every one runs, and the result
  is the list of their values or the first rejection, first in the order of the list
  (the order in which the answers arrive is not part of the model).
\<close>

fun io_all :: "'a io list \<Rightarrow> 'a list io" where
  "io_all [] s = (Inr [], s)"
| "io_all (m # ms) s =
     (case m s of (r, s') \<Rightarrow>
        (case io_all ms s' of (rs, s'') \<Rightarrow>
           ((case r of Inl e \<Rightarrow> Inl e
             | Inr x \<Rightarrow> (case rs of Inl e \<Rightarrow> Inl e | Inr xs \<Rightarrow> Inr (x # xs))), s'')))"

definition logFullError :: "error \<Rightarrow> string \<Rightarrow> unit io" where
  "logFullError err ctx = external (LogFullError err ctx) (Inr ())"

definition logInfo :: "string \<Rightarrow> string \<Rightarrow> unit io" where
  "logInfo ctx msg = external (LogInfo ctx msg) (Inr ())"

definition logDebug :: "string \<Rightarrow> jsval \<Rightarrow> unit io" where
  "logDebug ctx q = external (LogDebug ctx q) (Inr ())"

definition esClient_get :: "env \<Rightarrow> string \<Rightarrow> string \<Rightarrow> es_hit io" where
  "esClient_get e idx i = external (EsGet idx i) (esGet e idx i)"

definition esClient_search :: "env \<Rightarrow> string \<Rightarrow> jsval \<Rightarrow> es_body io" where
  "esClient_search e idx q = external (EsSearch idx q) (esSearch e idx q)"

definition Role_findAll :: "env \<Rightarrow> jsval list \<Rightarrow> jsval list io" where
  "Role_findAll e roles = external (RoleFindAll roles) (roleFindAll e roles)"

definition checkIsMemberOfProject :: "env \<Rightarrow> int \<Rightarrow> jsval option \<Rightarrow> unit io" where
  "checkIsMemberOfProject e uid projectId =
     external (CheckIsMemberOfProject uid projectId) (isMember e uid projectId)"

definition getSkillById :: "env \<Rightarrow> jsval \<Rightarrow> unit io" where
  "getSkillById e skill = external (GetSkillById skill) (skillById e skill)"

definition getUserId :: "env \<Rightarrow> int \<Rightarrow> jsval io" where
  "getUserId e uid = external (GetUserId uid) (userIdOf e uid)"

definition postEvent :: "env \<Rightarrow> string \<Rightarrow> jsval \<Rightarrow> jsval option \<Rightarrow> unit io" where
  "postEvent e topic payload opts = external (PostEvent topic payload opts) (publish e topic payload opts)"

definition uuid_v4 :: "env \<Rightarrow> string io" where
  "uuid_v4 e s = (Inr (uuid e (minted s)), s\<lparr>minted := Suc (minted s)\<rparr>)"

section \<open>The relational store\<close>

text \<open>
  Modelled from the spec: the models (\<^verbatim>\<open>src/models\<close>) are not among the sources. The
  Record Store Adapter of the spec is taken as tables in the state: \<^verbatim>\<open>findById\<close> raises
  NotFound for an absent id and eager-loads the candidates on request, \<^verbatim>\<open>create\<close>,
  \<^verbatim>\<open>update\<close> and \<^verbatim>\<open>destroy\<close> change the table, \<^verbatim>\<open>findAll\<close> filters, orders and pages the
  rows and includes their candidates. A fault of the connection to the store is not
  part of the model: a read or write that is issued is carried out.
\<close>

definition candidates_of :: "state \<Rightarrow> jsval option \<Rightarrow> jsval" where
  "candidates_of s jid =
     JArr (map JObj (filter (\<lambda>c. jid \<noteq> None \<and> get_prop c ''jobId'' = jid) (jobCandidates s)))"

definition Job_findById :: "string \<Rightarrow> bool \<Rightarrow> obj io" where
  "Job_findById i withCandidates s =
     (let s' = s\<lparr>calls := calls s @ [JobFindById i withCandidates]\<rparr> in
      case List.find (\<lambda>r. get_prop r ''id'' = Some (JStr i)) (jobs s) of
        None \<Rightarrow> (Inl (NotFoundError (''id: '' @ i @ '' Job not found'')), s')
      | Some row \<Rightarrow>
          (Inr (if withCandidates
                then set_prop ''candidates'' (candidates_of s (Some (JStr i))) row
                else row), s'))"

definition Job_create :: "obj \<Rightarrow> obj io" where
  "Job_create job s = (Inr job, s\<lparr>jobs := jobs s @ [job], calls := calls s @ [JobCreate job]\<rparr>)"

text \<open>\<^verbatim>\<open>job.update(data)\<close> on an instance read from the table.\<close>

definition Job_update :: "obj \<Rightarrow> obj \<Rightarrow> obj io" where
  "Job_update job data s =
     (Inr (assign job data),
      s\<lparr>jobs := map (\<lambda>r. if get_prop r ''id'' = get_prop job ''id'' then assign r data else r) (jobs s),
        calls := calls s @ [JobUpdate (get_prop job ''id'') data]\<rparr>)"

text \<open>\<^verbatim>\<open>job.destroy()\<close> on an instance read from the table.\<close>

definition Job_destroy :: "obj \<Rightarrow> unit io" where
  "Job_destroy job s =
     (Inr (),
      s\<lparr>jobs := filter (\<lambda>r. get_prop r ''id'' \<noteq> get_prop job ''id'') (jobs s),
        calls := calls s @ [JobDestroy (get_prop job ''id'')]\<rparr>)"

text \<open>
  The pattern match of the store: \<^verbatim>\<open>%\<close> stands for any run of characters, \<^verbatim>\<open>_\<close> for
  any one character.
\<close>

fun like_match :: "string \<Rightarrow> string \<Rightarrow> bool" where
  "like_match [] [] = True"
| "like_match [] (c # cs) = False"
| "like_match (p # ps) [] = (p = CHR ''%'' \<and> like_match ps [])"
| "like_match (p # ps) (c # cs) =
     (if p = CHR ''%'' then like_match ps (c # cs) \<or> like_match (p # ps) cs
      else (p = CHR ''_'' \<or> p = c) \<and> like_match ps cs)"

fun eval_cond :: "where_cond \<Rightarrow> obj \<Rightarrow> bool" where
  "eval_cond (WEq k v) row = (get_prop row k = Some v)"
| "eval_cond (WIn k vs) row = list_ex (\<lambda>v. get_prop row k = Some v) vs"
| "eval_cond (WLike k pat) row =
     (case get_prop row k of Some (JStr t) \<Rightarrow> like_match pat t | _ \<Rightarrow> False)"
| "eval_cond (WContains k vs) row =
     (case get_prop row k of Some (JArr xs) \<Rightarrow> list_all (\<lambda>v. v \<in> set xs) vs | _ \<Rightarrow> False)"

definition eval_where :: "where_filter \<Rightarrow> obj \<Rightarrow> bool" where
  "eval_where w row = list_all (\<lambda>c. eval_cond c row) (op_and w @ columns w)"

fun str_le :: "string \<Rightarrow> string \<Rightarrow> bool" where
  "str_le [] t = True"
| "str_le (c # cs) [] = False"
| "str_le (c # cs) (d # ds) = ((of_char c :: nat) < of_char d \<or> (c = d \<and> str_le cs ds))"

fun val_le :: "jsval option \<Rightarrow> jsval option \<Rightarrow> bool" where
  "val_le (Some (JNum a)) (Some (JNum b)) = (a \<le> b)"
| "val_le (Some (JStr a)) (Some (JStr b)) = str_le a b"
| "val_le a b = True"

fun insert_row :: "(obj \<Rightarrow> obj \<Rightarrow> bool) \<Rightarrow> obj \<Rightarrow> obj list \<Rightarrow> obj list" where
  "insert_row le r [] = [r]"
| "insert_row le r (x # xs) = (if le r x then r # x # xs else x # insert_row le r xs)"

fun sort_rows :: "(obj \<Rightarrow> obj \<Rightarrow> bool) \<Rightarrow> obj list \<Rightarrow> obj list" where
  "sort_rows le [] = []"
| "sort_rows le (r # rs) = insert_row le r (sort_rows le rs)"

definition order_rows :: "string \<times> string \<Rightarrow> obj list \<Rightarrow> obj list" where
  "order_rows ord rows =
     (if snd ord = ''desc''
      then sort_rows (\<lambda>a b. val_le (get_prop b (fst ord)) (get_prop a (fst ord))) rows
      else sort_rows (\<lambda>a b. val_le (get_prop a (fst ord)) (get_prop b (fst ord))) rows)"

definition Job_findAll :: "find_options \<Rightarrow> obj list io" where
  "Job_findAll opts s =
     (let s' = s\<lparr>calls := calls s @ [JobFindAll opts]\<rparr> in
      if f_offset opts < 0 \<or> f_limit opts < 0
      then (Inl (Error ''SequelizeDatabaseError'' ''OFFSET and LIMIT must not be negative'' None None), s')
      else
        (Inr (map (\<lambda>r. set_prop ''candidates'' (candidates_of s (get_prop r ''id'')) r)
               (take (nat (f_limit opts))
                 (drop (nat (f_offset opts))
                   (order_rows (f_order opts) (filter (eval_where (f_where opts)) (jobs s)))))),
         s'))"

section \<open>The job service\<close>

subsection \<open>Helpers of the service\<close>

text \<open>\<^verbatim>\<open>_getJobCandidates\<close>: the candidates of a job, from the candidate index.\<close>

definition candidateQuery :: "string \<Rightarrow> jsval" where
  "candidateQuery jobId =
     JObj [(''query'', JObj [(''term'', JObj [(''jobId'', JObj [(''value'', JStr jobId)])])])]"

definition getJobCandidates :: "env \<Rightarrow> string \<Rightarrow> obj list io" where
  "getJobCandidates e jobId =
     io_bind (esClient_search e (ES_INDEX_JOB_CANDIDATE (cfg e)) (candidateQuery jobId)) (\<lambda>body.
       if total_value body = 0 then io_return []
       else io_return (map (\<lambda>hit. set_prop ''id'' (JStr (hit_id hit)) (hit_source hit)) (hits body)))"

text \<open>
  \<^verbatim>\<open>_validateSkills\<close>: one lookup per skill, all started; a lookup that fails with a
  status other than 404 rejects the whole validation.
\<close>

definition skillLookup :: "env \<Rightarrow> jsval \<Rightarrow> (bool \<times> jsval) io" where
  "skillLookup e skill =
     io_catch (io_bind (getSkillById e skill) (\<lambda>_. io_return (True, skill)))
       (\<lambda>err. if err_status err \<noteq> Some NOT_FOUND then io_throw err
               else io_return (False, skill))"

definition validateSkills :: "env \<Rightarrow> jsval option \<Rightarrow> unit io" where
  "validateSkills e skills =
     (case skills of
        Some (JArr xs) \<Rightarrow>
          io_bind (io_all (map (skillLookup e) xs)) (\<lambda>responses.
            let errResponses = filter (\<lambda>res. \<not> fst res) responses in
            if errResponses \<noteq> []
            then io_throw (BadRequestError
                   (''Invalid skills: ['' @ join_comma (map (\<lambda>res. str_of (snd res)) errResponses) @ '']''))
            else io_return ())
      | _ \<Rightarrow> io_throw (TypeError ''skills.map is not a function''))"

text \<open>\<^verbatim>\<open>_validateRoles\<close>: the roles that the role table does not hold are invalid.\<close>

definition validateRoles :: "env \<Rightarrow> jsval list \<Rightarrow> unit io" where
  "validateRoles e roles =
     io_bind (Role_findAll e roles) (\<lambda>foundRoles.
       let nonexistentRoles = difference roles foundRoles in
       if nonexistentRoles \<noteq> []
       then io_throw (BadRequestError
              (''Invalid roles: ['' @ join_comma (map str_of nonexistentRoles) @ '']''))
       else io_return ())"

text \<open>\<^verbatim>\<open>_checkUserPermissionForGetJob\<close>.\<close>

definition checkUserPermissionForGetJob :: "env \<Rightarrow> user \<Rightarrow> jsval option \<Rightarrow> unit io" where
  "checkUserPermissionForGetJob e currentUser projectId =
     (if \<not> hasManagePermission currentUser \<and> \<not> isMachine currentUser \<and> \<not> isConnectManager currentUser
      then checkIsMemberOfProject e (userId currentUser) projectId
      else io_return ())"

text \<open>
  The candidates of a row read from the relational store, as plain values; a row read
  without candidates gets the empty list.
\<close>

definition candidates_dataValues :: "jsval option \<Rightarrow> jsval" where
  "candidates_dataValues v = (case v of Some (JArr cs) \<Rightarrow> JArr cs | _ \<Rightarrow> JArr [])"

text \<open>The values of a role id list: \<^verbatim>\<open>_.uniq\<close> of anything but an array is empty.\<close>

definition array_items :: "jsval option \<Rightarrow> jsval list" where
  "array_items v = (case v of Some (JArr xs) \<Rightarrow> xs | _ \<Rightarrow> [])"

subsection \<open>getJob\<close>

definition getJob_index :: "env \<Rightarrow> user \<Rightarrow> string \<Rightarrow> obj io" where
  "getJob_index e currentUser i =
     io_bind (esClient_get e (ES_INDEX_JOB (cfg e)) i) (\<lambda>job.
     io_bind (checkUserPermissionForGetJob e currentUser (get_prop (hit_source job) ''projectId'')) (\<lambda>_.
       let jobId = hit_id job;
           jobRecord = assign [(''id'', JStr jobId)] (hit_source job)
       in io_bind (getJobCandidates e jobId) (\<lambda>candidates.
            io_return (if candidates \<noteq> []
                       then set_prop ''candidates'' (JArr (map JObj candidates)) jobRecord
                       else jobRecord))))"

definition getJob_db :: "env \<Rightarrow> user \<Rightarrow> string \<Rightarrow> obj io" where
  "getJob_db e currentUser i =
     io_bind (logInfo ''getJob'' ''try to query db for data'') (\<lambda>_.
     io_bind (Job_findById i True) (\<lambda>job.
     io_bind (checkUserPermissionForGetJob e currentUser (get_prop job ''projectId'')) (\<lambda>_.
       io_return (set_prop ''candidates'' (candidates_dataValues (get_prop job ''candidates'')) job))))"

text \<open>
  The \<^verbatim>\<open>try\<close> block either returns the job (\<open>Some\<close>), rethrows, or logs the error and
  falls through (\<open>None\<close>) to the relational store.
\<close>

definition getJob :: "env \<Rightarrow> user \<Rightarrow> string \<Rightarrow> bool \<Rightarrow> obj io" where
  "getJob e currentUser i fromDb =
     io_bind
       (if \<not> fromDb
        then io_catch (io_bind (getJob_index e currentUser i) (\<lambda>jobRecord. io_return (Some jobRecord)))
               (\<lambda>err.
                  if isDocumentMissingException e err
                  then io_throw (NotFoundError (''id: '' @ i @ '' \"Job\" not found''))
                  else if httpStatus err = Some FORBIDDEN then io_throw err
                  else io_bind (logFullError err ''getJob'') (\<lambda>_. io_return None))
        else io_return None)
       (\<lambda>answered. case answered of
          Some jobRecord \<Rightarrow> io_return jobRecord
        | None \<Rightarrow> getJob_db e currentUser i)"

subsection \<open>createJob\<close>

definition createJob :: "env \<Rightarrow> user \<Rightarrow> obj \<Rightarrow> obj io" where
  "createJob e currentUser job =
     io_bind (if \<not> hasManagePermission currentUser \<and> \<not> isMachine currentUser
              then checkIsMemberOfProject e (userId currentUser) (get_prop job ''projectId'')
              else io_return ()) (\<lambda>_.
     if get_prop job ''isApplicationPageActive'' \<noteq> None \<and> \<not> isMachine currentUser
     then io_throw (ForbiddenError
            ''You are not allowed to set/update the value of field \"isApplicationPageActive\".'')
     else
     io_bind (validateSkills e (get_prop job ''skills'')) (\<lambda>_.
     io_bind (if truthy (get_prop job ''roleIds'')
              then (let roleIds = uniq (array_items (get_prop job ''roleIds'')) in
                    io_bind (validateRoles e roleIds) (\<lambda>_.
                      io_return (set_prop ''roleIds'' (JArr roleIds) job)))
              else io_return job) (\<lambda>job.
     io_bind (uuid_v4 e) (\<lambda>newId.
     io_bind (getUserId e (userId currentUser)) (\<lambda>createdBy.
     io_bind (Job_create (set_prop ''createdBy'' createdBy (set_prop ''id'' (JStr newId) job))) (\<lambda>created.
     io_bind (postEvent e (TAAS_JOB_CREATE_TOPIC (cfg e)) (JObj created) None) (\<lambda>_.
       io_return created)))))))"

subsection \<open>updateJob\<close>

definition updateJob :: "env \<Rightarrow> user \<Rightarrow> string \<Rightarrow> obj \<Rightarrow> obj io" where
  "updateJob e currentUser i data =
     io_bind (if truthy (get_prop data ''skills'')
              then validateSkills e (get_prop data ''skills'')
              else io_return ()) (\<lambda>_.
     io_bind (if truthy (get_prop data ''roleIds'')
              then (let roleIds = uniq (array_items (get_prop data ''roleIds'')) in
                    io_bind (validateRoles e roleIds) (\<lambda>_.
                      io_return (set_prop ''roleIds'' (JArr roleIds) data)))
              else io_return data) (\<lambda>data.
     io_bind (Job_findById i False) (\<lambda>job.
       let oldValue = job in
       if get_prop data ''isApplicationPageActive'' \<noteq> None \<and> \<not> isMachine currentUser
       then io_throw (ForbiddenError
              ''You are not allowed to set/update the value of field \"isApplicationPageActive\".'')
       else
       io_bind (getUserId e (userId currentUser)) (\<lambda>ubahnUserId.
         if \<not> hasManagePermission currentUser \<and> \<not> isMachine currentUser
            \<and> Some ubahnUserId \<noteq> get_prop job ''createdBy''
         then io_throw (ForbiddenError ''You are not allowed to perform this action!'')
         else
         io_bind (Job_update job (set_prop ''updatedBy'' ubahnUserId data)) (\<lambda>updated.
         io_bind (postEvent e (TAAS_JOB_UPDATE_TOPIC (cfg e)) (JObj updated)
                    (Some (JObj [(''oldValue'', JObj oldValue)]))) (\<lambda>_.
         io_bind (Job_findById i True) (\<lambda>job.
           io_return (set_prop ''candidates'' (candidates_dataValues (get_prop job ''candidates'')) job))))))))"

text \<open>
  \<^verbatim>\<open>updateJob\<close> declares three parameters. A call that passes more binds the first three
  and drops the rest.
\<close>

definition updateJob_call :: "env \<Rightarrow> user \<Rightarrow> string \<Rightarrow> obj \<Rightarrow> jsval list \<Rightarrow> obj io" where
  "updateJob_call e currentUser i data surplus = updateJob e currentUser i data"

definition partiallyUpdateJob :: "env \<Rightarrow> user \<Rightarrow> string \<Rightarrow> obj \<Rightarrow> obj io" where
  "partiallyUpdateJob e currentUser i data = updateJob_call e currentUser i data [JBool False]"

definition fullyUpdateJob :: "env \<Rightarrow> user \<Rightarrow> string \<Rightarrow> obj \<Rightarrow> obj io" where
  "fullyUpdateJob e currentUser i data = updateJob_call e currentUser i data [JBool True]"

subsection \<open>deleteJob\<close>

definition deleteJob :: "env \<Rightarrow> user \<Rightarrow> string \<Rightarrow> unit io" where
  "deleteJob e currentUser i =
     (if \<not> hasManagePermission currentUser \<and> \<not> isMachine currentUser
      then io_throw (ForbiddenError ''You are not allowed to perform this action!'')
      else
      io_bind (Job_findById i False) (\<lambda>job.
      io_bind (Job_destroy job) (\<lambda>_.
      postEvent e (TAAS_JOB_DELETE_TOPIC (cfg e)) (JObj [(''id'', JStr i)]) None)))"

subsection \<open>searchJobs\<close>

text \<open>
  The search criteria as \<^verbatim>\<open>searchJobs.schema\<close> types them; \<open>None\<close> is an absent key.
  A date is its time value.
\<close>

record criteria =
  page :: "int option"
  perPage :: "int option"
  sortBy :: "string option"
  sortOrder :: "string option"
  projectId :: "int option"
  externalId :: "string option"
  description :: "string option"
  title :: "string option"
  startDate :: "int option"
  resourceType :: "string option"
  skill :: "string option"
  role :: "string option"
  rateType :: "string option"
  workload :: "string option"
  status :: "string option"
  projectIds :: "int list option"
  jobIds :: "string list option"

record search_options =
  returnAll :: bool

text \<open>The search result; \<open>fromDb\<close> is \<open>None\<close> where the result has no such key.\<close>

record search_result =
  fromDb :: "bool option"
  total :: int
  page :: int
  perPage :: int
  result :: "obj list"

text \<open>The property of the criteria object under a key, as a value.\<close>

definition criteria_prop :: "criteria \<Rightarrow> string \<Rightarrow> jsval option" where
  "criteria_prop c k =
     (if k = ''projectId'' then map_option JNum (projectId c)
      else if k = ''externalId'' then map_option JStr (externalId c)
      else if k = ''description'' then map_option JStr (description c)
      else if k = ''startDate'' then map_option JNum (startDate c)
      else if k = ''resourceType'' then map_option JStr (resourceType c)
      else if k = ''skill'' then map_option JStr (skill c)
      else if k = ''role'' then map_option JStr (role c)
      else if k = ''rateType'' then map_option JStr (rateType c)
      else if k = ''workload'' then map_option JStr (workload c)
      else if k = ''title'' then map_option JStr (title c)
      else if k = ''status'' then map_option JStr (status c)
      else None)"

text \<open>\<^verbatim>\<open>_.pick\<close>: the listed keys that the criteria have, in the order of the list.\<close>

definition pick :: "criteria \<Rightarrow> string list \<Rightarrow> (string \<times> jsval) list" where
  "pick c ks = List.map_filter (\<lambda>k. map_option (Pair k) (criteria_prop c k)) ks"

definition must_clause :: "string \<Rightarrow> jsval \<Rightarrow> jsval" where
  "must_clause key val =
     (if key = ''description'' \<or> key = ''title''
      then JObj [(''match'', JObj [(key, JObj [(''query'', val)])])]
      else if key = ''skill'' \<or> key = ''role''
      then JObj [(''terms'', JObj [(key @ ''s'', JArr [val])])]
      else JObj [(''term'', JObj [(key, JObj [(''value'', val)])])])"

text \<open>The body of the index query, for the sort key and order already defaulted.\<close>

definition esQuery_body :: "criteria \<Rightarrow> string \<Rightarrow> string \<Rightarrow> int \<Rightarrow> int \<Rightarrow> jsval" where
  "esQuery_body c sortKey sortDir pg perPg =
     JObj [(''query'', JObj [(''bool'', JObj
              [(''must'', JArr (map (\<lambda>(key, val). must_clause key val)
                  (pick c [''projectId'', ''externalId'', ''description'', ''startDate'',
                           ''resourceType'', ''skill'', ''role'', ''rateType'', ''workload'',
                           ''title'', ''status'']))),
               (''filter'', JArr
                  ((case projectIds c of
                      Some ids \<Rightarrow> [JObj [(''terms'', JObj [(''projectId'', JArr (map JNum ids))])]]
                    | None \<Rightarrow> [])
                   @ (case jobIds c of
                        Some ids \<Rightarrow> (if ids \<noteq> []
                                     then [JObj [(''terms'', JObj [(''_id'', JArr (map JStr ids))])]]
                                     else [])
                      | None \<Rightarrow> [])))])]),
           (''from'', JNum ((pg - 1) * perPg)),
           (''size'', JNum perPg),
           (''sort'', JArr [JObj [(if sortKey = ''id'' then ''_id'' else sortKey,
                                   JObj [(''order'', JStr sortDir)])]])]"

text \<open>The \<^verbatim>\<open>try\<close> block: the index query and the candidates of every hit.\<close>

definition searchJobs_index ::
    "env \<Rightarrow> criteria \<Rightarrow> string \<Rightarrow> string \<Rightarrow> int \<Rightarrow> int \<Rightarrow> search_result io" where
  "searchJobs_index e c sortKey sortDir pg perPg =
     (let body = esQuery_body c sortKey sortDir pg perPg in
      io_bind (logDebug ''searchJobs'' (JObj [(''index'', JStr (ES_INDEX_JOB (cfg e))), (''body'', body)])) (\<lambda>_.
      io_bind (esClient_search e (ES_INDEX_JOB (cfg e)) body) (\<lambda>body.
      io_bind (io_all (map (\<lambda>hit.
                 let jobRecord = set_prop ''id'' (JStr (hit_id hit)) (hit_source hit) in
                 io_bind (getJobCandidates e (hit_id hit)) (\<lambda>candidates.
                   io_return (if candidates \<noteq> []
                              then set_prop ''candidates'' (JArr (map JObj candidates)) jobRecord
                              else jobRecord))) (hits body))) (\<lambda>res.
        io_return \<lparr>fromDb = None, total = total_value body, page = pg, perPage = perPg,
                   result = res\<rparr>))))"

text \<open>The filter of the fallback query.\<close>

definition db_filter :: "criteria \<Rightarrow> where_filter" where
  "db_filter c =
     \<lparr>op_and =
        map (\<lambda>(key, val). WEq key val)
          (pick c [''projectId'', ''externalId'', ''startDate'', ''resourceType'', ''rateType'',
                   ''workload'', ''status''])
        @ (case jobIds c of
             Some ids \<Rightarrow> (if ids \<noteq> [] then [WIn ''id'' (map JStr ids)] else [])
           | None \<Rightarrow> []),
      columns =
        (case description c of
           Some d \<Rightarrow> (if d \<noteq> [] then [WLike ''description'' (''%'' @ d @ ''%'')] else [])
         | None \<Rightarrow> [])
        @ (case title c of
             Some t \<Rightarrow> (if t \<noteq> [] then [WLike ''title'' (''%'' @ t @ ''%'')] else [])
           | None \<Rightarrow> [])
        @ (case skill c of
             Some k \<Rightarrow> (if k \<noteq> [] then [WContains ''skills'' [JStr k]] else [])
           | None \<Rightarrow> [])
        @ (case role c of
             Some r \<Rightarrow> (if r \<noteq> [] then [WContains ''roles'' [JStr r]] else [])
           | None \<Rightarrow> [])\<rparr>"

text \<open>The fallback: the query of the relational store.\<close>

definition searchJobs_db :: "criteria \<Rightarrow> string \<Rightarrow> string \<Rightarrow> int \<Rightarrow> int \<Rightarrow> search_result io" where
  "searchJobs_db c sortKey sortDir pg perPg =
     io_bind (logInfo ''searchJobs'' ''fallback to DB query'') (\<lambda>_.
     io_bind (Job_findAll \<lparr>f_where = db_filter c, f_offset = (pg - 1) * perPg, f_limit = perPg,
                           f_order = (sortKey, sortDir)\<rparr>) (\<lambda>rows.
       io_return \<lparr>fromDb = Some True, total = int (length rows), page = pg, perPage = perPg,
                  result = rows\<rparr>))"

text \<open>
  The page, the page size, the sort key and the sort order in effect: an absent value
  is not greater than 0 and not truthy.
\<close>

definition searchJobs_page :: "criteria \<Rightarrow> int" where
  "searchJobs_page c = (case criteria.page c of Some p \<Rightarrow> (if p > 0 then p else 1) | None \<Rightarrow> 1)"

definition searchJobs_perPage :: "criteria \<Rightarrow> search_options \<Rightarrow> int" where
  "searchJobs_perPage c options =
     (if returnAll options then 10000
      else (case criteria.perPage c of Some n \<Rightarrow> (if n > 0 then n else 20) | None \<Rightarrow> 20))"

definition searchJobs_sortBy :: "criteria \<Rightarrow> string" where
  "searchJobs_sortBy c = (case sortBy c of Some k \<Rightarrow> (if k \<noteq> [] then k else ''id'') | None \<Rightarrow> ''id'')"

definition searchJobs_sortOrder :: "criteria \<Rightarrow> string" where
  "searchJobs_sortOrder c =
     (case sortOrder c of Some d \<Rightarrow> (if d \<noteq> [] then d else ''desc'') | None \<Rightarrow> ''desc'')"

definition searchJobs :: "env \<Rightarrow> user \<Rightarrow> criteria \<Rightarrow> search_options \<Rightarrow> search_result io" where
  "searchJobs e currentUser c options =
     io_bind (if \<not> hasManagePermission currentUser \<and> \<not> isMachine currentUser
                 \<and> \<not> isConnectManager currentUser \<and> \<not> returnAll options
              then (if \<not> (case projectId c of Some n \<Rightarrow> n \<noteq> 0 | None \<Rightarrow> False)
                    then io_throw (ForbiddenError ''Not allowed without filtering by \"projectId\"'')
                    else checkIsMemberOfProject e (userId currentUser) (map_option JNum (projectId c)))
              else io_return ()) (\<lambda>_.
       let pg = searchJobs_page c;
           perPg = searchJobs_perPage c options;
           sortKey = searchJobs_sortBy c;
           sortDir = searchJobs_sortOrder c
       in
       io_bind (io_catch
                  (io_bind (searchJobs_index e c sortKey sortDir pg perPg) (\<lambda>r. io_return (Some r)))
                  (\<lambda>err. io_bind (logFullError err ''searchJobs'') (\<lambda>_. io_return None)))
         (\<lambda>answered. case answered of
            Some r \<Rightarrow> io_return r
          | None \<Rightarrow> searchJobs_db c sortKey sortDir pg perPg))"

section \<open>Concrete collaborators, callers and stores\<close>

definition cfg0 :: config where
  "cfg0 = \<lparr>ES_INDEX_JOB = ''job'', ES_INDEX_JOB_CANDIDATE = ''job_candidate'',
            TAAS_JOB_CREATE_TOPIC = ''taas.job.create'', TAAS_JOB_UPDATE_TOPIC = ''taas.job.update'',
            TAAS_JOB_DELETE_TOPIC = ''taas.job.delete''\<rparr>"

definition unavailable :: error where
  "unavailable = Error ''ConnectionError'' ''index unavailable'' None (Some 503)"

definition missing_doc :: error where
  "missing_doc = Error ''ResponseError'' ''document missing'' None (Some 404)"

text \<open>
  An index that holds the job \<open>j1\<close> of project 2 with no candidates; only user 7 is a
  member of project 2; the skill \<open>s1\<close> and the role \<open>r1\<close> exist.
\<close>

definition env_up :: env where
  "env_up = \<lparr>cfg = cfg0,
     esGet = (\<lambda>idx i. if idx = ''job'' \<and> i = ''j1''
                then Inr \<lparr>hit_id = ''j1'', hit_source = [(''projectId'', JNum 2), (''title'', JStr ''dev'')]\<rparr>
                else Inl missing_doc),
     esSearch = (\<lambda>idx q. if idx = ''job''
                then Inr \<lparr>total_value = 12, hits = [\<lparr>hit_id = ''j1'',
                       hit_source = [(''projectId'', JNum 2), (''title'', JStr ''dev'')]\<rparr>]\<rparr>
                else Inr \<lparr>total_value = 0, hits = []\<rparr>),
     roleFindAll = (\<lambda>roles. Inr (filter (\<lambda>r. r = JStr ''r1'') roles)),
     isMember = (\<lambda>uid pid. if uid = 7 \<and> pid = Some (JNum 2) then Inr ()
                  else Inl (ForbiddenError ''the user is not a member of the project'')),
     skillById = (\<lambda>sk. if sk = JStr ''s1'' then Inr ()
                   else Inl (Error ''HttpError'' ''Not Found'' None (Some NOT_FOUND))),
     userIdOf = (\<lambda>uid. Inr (JStr (if uid = 7 then ''u7'' else ''u0''))),
     publish = (\<lambda>t p ol. Inr ()),
     isDocumentMissingException = (\<lambda>err. err = missing_doc),
     uuid = (\<lambda>n. ''minted'')\<rparr>"

text \<open>The same collaborators with the index out of reach.\<close>

definition env_down :: env where
  "env_down = env_up\<lparr>esGet := (\<lambda>idx i. Inl unavailable), esSearch := (\<lambda>idx q. Inl unavailable)\<rparr>"

text \<open>The same collaborators with an event channel that rejects every event.\<close>

definition env_mute :: env where
  "env_mute = env_up\<lparr>publish := (\<lambda>t p ol. Inl unavailable)\<rparr>"

definition st0 :: state where
  "st0 = \<lparr>jobs = [[(''id'', JStr ''j1''), (''projectId'', JNum 2), (''title'', JStr ''dev''),
                    (''createdBy'', JStr ''u7'')]],
          jobCandidates = [], calls = [], minted = 0\<rparr>"

definition machine :: user where
  "machine = \<lparr>userId = 1, hasManagePermission = False, isMachine = True, isConnectManager = False\<rparr>"

definition member :: user where
  "member = \<lparr>userId = 7, hasManagePermission = False, isMachine = False, isConnectManager = False\<rparr>"

definition outsider :: user where
  "outsider = \<lparr>userId = 9, hasManagePermission = False, isMachine = False, isConnectManager = False\<rparr>"

definition crit0 :: criteria where
  "crit0 = \<lparr>criteria.page = None, criteria.perPage = None, sortBy = None, sortOrder = None,
             projectId = None, externalId = None, description = None, title = None,
             startDate = None, resourceType = None, skill = None, role = None, rateType = None,
             workload = None, status = None, projectIds = None, jobIds = None\<rparr>"

text \<open>A store with a second job, \<open>j2\<close> of project 3, that the index does not hold.\<close>

definition st2 :: state where
  "st2 = st0\<lparr>jobs := jobs st0 @ [[(''id'', JStr ''j2''), (''projectId'', JNum 3),
                                   (''title'', JStr ''qa''), (''createdBy'', JStr ''u0'')]]\<rparr>"

text \<open>An index in which the job \<open>j1\<close> has one candidate, and a store in which it has one.\<close>

definition env_staffed :: env where
  "env_staffed = env_up\<lparr>esSearch := (\<lambda>idx q. if idx = ''job'' then esSearch env_up idx q
       else Inr \<lparr>total_value = 1, hits = [\<lparr>hit_id = ''c1'',
              hit_source = [(''jobId'', JStr ''j1''), (''status'', JStr ''open'')]\<rparr>]\<rparr>)\<rparr>"

definition st_staffed :: state where
  "st_staffed = st0\<lparr>jobCandidates := [[(''id'', JStr ''c1''), (''jobId'', JStr ''j1''),
                                        (''status'', JStr ''open'')]]\<rparr>"

section \<open>Outcomes of the validations of a payload\<close>

text \<open>A skill lookup is settled when it finds the skill or fails with the status 404.\<close>

definition skill_settled :: "env \<Rightarrow> jsval \<Rightarrow> bool" where
  "skill_settled e sk =
     (case skillById e sk of Inr _ \<Rightarrow> True | Inl err \<Rightarrow> err_status err = Some NOT_FOUND)"

definition skill_found :: "env \<Rightarrow> jsval \<Rightarrow> bool" where
  "skill_found e sk = (case skillById e sk of Inr _ \<Rightarrow> True | Inl err \<Rightarrow> False)"

text \<open>The skills of a payload pass the validation of \<^verbatim>\<open>updateJob\<close>: none is supplied, or all are found.\<close>

definition skills_pass :: "env \<Rightarrow> obj \<Rightarrow> bool" where
  "skills_pass e data =
     (case get_prop data ''skills'' of
        Some (JArr xs) \<Rightarrow> list_all (skill_found e) xs
      | v \<Rightarrow> \<not> truthy v)"

definition skill_calls :: "obj \<Rightarrow> call list" where
  "skill_calls data =
     (case get_prop data ''skills'' of Some (JArr xs) \<Rightarrow> map GetSkillById xs | _ \<Rightarrow> [])"

definition roles_pass :: "env \<Rightarrow> obj \<Rightarrow> bool" where
  "roles_pass e data =
     (if truthy (get_prop data ''roleIds'')
      then (case roleFindAll e (uniq (array_items (get_prop data ''roleIds''))) of
              Inr found \<Rightarrow> difference (uniq (array_items (get_prop data ''roleIds''))) found = []
            | Inl err \<Rightarrow> False)
      else True)"

definition role_calls :: "obj \<Rightarrow> call list" where
  "role_calls data =
     (if truthy (get_prop data ''roleIds'')
      then [RoleFindAll (uniq (array_items (get_prop data ''roleIds'')))] else [])"

section \<open>What an operation writes and publishes\<close>

text \<open>The tables of the relational store and the write and publish calls made so far.\<close>

definition effects :: "state \<Rightarrow> obj list \<times> obj list \<times> call list" where
  "effects s = (jobs s, jobCandidates s, filter (\<lambda>c. is_write_call c \<or> is_publish_call c) (calls s))"

text \<open>The error of the guard on \<^verbatim>\<open>isApplicationPageActive\<close> in \<^verbatim>\<open>createJob\<close> and \<^verbatim>\<open>updateJob\<close>.\<close>

definition field_guard :: error where
  "field_guard = ForbiddenError
     ''You are not allowed to set/update the value of field \"isApplicationPageActive\".''"

section \<open>The write part of the operations that write\<close>

text \<open>The part of an operation up to and including its write to the relational store.\<close>

definition createJob_write :: "env \<Rightarrow> user \<Rightarrow> obj \<Rightarrow> obj io" where
  "createJob_write e currentUser job =
     io_bind (if \<not> hasManagePermission currentUser \<and> \<not> isMachine currentUser
              then checkIsMemberOfProject e (userId currentUser) (get_prop job ''projectId'')
              else io_return ()) (\<lambda>_.
     if get_prop job ''isApplicationPageActive'' \<noteq> None \<and> \<not> isMachine currentUser
     then io_throw field_guard
     else
     io_bind (validateSkills e (get_prop job ''skills'')) (\<lambda>_.
     io_bind (if truthy (get_prop job ''roleIds'')
              then (let roleIds = uniq (array_items (get_prop job ''roleIds'')) in
                    io_bind (validateRoles e roleIds) (\<lambda>_.
                      io_return (set_prop ''roleIds'' (JArr roleIds) job)))
              else io_return job) (\<lambda>job.
     io_bind (uuid_v4 e) (\<lambda>newId.
     io_bind (getUserId e (userId currentUser)) (\<lambda>createdBy.
     Job_create (set_prop ''createdBy'' createdBy (set_prop ''id'' (JStr newId) job)))))))"

definition updateJob_write :: "env \<Rightarrow> user \<Rightarrow> string \<Rightarrow> obj \<Rightarrow> (obj \<times> obj) io" where
  "updateJob_write e currentUser i data =
     io_bind (if truthy (get_prop data ''skills'')
              then validateSkills e (get_prop data ''skills'')
              else io_return ()) (\<lambda>_.
     io_bind (if truthy (get_prop data ''roleIds'')
              then (let roleIds = uniq (array_items (get_prop data ''roleIds'')) in
                    io_bind (validateRoles e roleIds) (\<lambda>_.
                      io_return (set_prop ''roleIds'' (JArr roleIds) data)))
              else io_return data) (\<lambda>data.
     io_bind (Job_findById i False) (\<lambda>job.
       if get_prop data ''isApplicationPageActive'' \<noteq> None \<and> \<not> isMachine currentUser
       then io_throw field_guard
       else
       io_bind (getUserId e (userId currentUser)) (\<lambda>ubahnUserId.
         if \<not> hasManagePermission currentUser \<and> \<not> isMachine currentUser
            \<and> Some ubahnUserId \<noteq> get_prop job ''createdBy''
         then io_throw (ForbiddenError ''You are not allowed to perform this action!'')
         else
         io_bind (Job_update job (set_prop ''updatedBy'' ubahnUserId data)) (\<lambda>updated.
           io_return (job, updated))))))"

definition deleteJob_write :: "user \<Rightarrow> string \<Rightarrow> unit io" where
  "deleteJob_write currentUser i =
     (if \<not> hasManagePermission currentUser \<and> \<not> isMachine currentUser
      then io_throw (ForbiddenError ''You are not allowed to perform this action!'')
      else io_bind (Job_findById i False) (\<lambda>job. Job_destroy job))"

section \<open>The candidates the index reports\<close>

text \<open>The candidates that \<^verbatim>\<open>_getJobCandidates\<close> returns for a job when the index answers.\<close>

definition index_candidates :: "env \<Rightarrow> string \<Rightarrow> obj list" where
  "index_candidates e jobId =
     (case esSearch e (ES_INDEX_JOB_CANDIDATE (cfg e)) (candidateQuery jobId) of
        Inr body \<Rightarrow>
          (if total_value body = 0 then []
           else map (\<lambda>hit. set_prop ''id'' (JStr (hit_id hit)) (hit_source hit)) (hits body))
      | Inl err \<Rightarrow> [])"

text \<open>The \<^verbatim>\<open>candidates\<close> property of a record built from the index: absent for no candidates.\<close>

definition index_field :: "env \<Rightarrow> string \<Rightarrow> jsval option" where
  "index_field e jobId =
     (if index_candidates e jobId = [] then None
      else Some (JArr (map JObj (index_candidates e jobId))))"

section \<open>The tables of the store, and what a step leaves unchanged\<close>

definition db_of :: "state \<Rightarrow> obj list \<times> obj list" where
  "db_of s = (jobs s, jobCandidates s)"

definition preserves :: "(state \<Rightarrow> 'b) \<Rightarrow> 'a io \<Rightarrow> bool" where
  "preserves f m = (\<forall>s. f (snd (m s)) = f s)"

text \<open>A step extends the trace: it adds calls and removes none.\<close>

definition extends :: "'a io \<Rightarrow> bool" where
  "extends m = (\<forall>s. \<exists>xs. calls (snd (m s)) = calls s @ xs)"

section \<open>Properties\<close>

lemmas io_defs = io_bind_def io_catch_def io_return_def io_throw_def external_def

lemmas fixture_defs = cfg0_def env_up_def env_down_def env_mute_def st0_def machine_def member_def
  outsider_def crit0_def unavailable_def missing_doc_def

subsection \<open>What an operation leaves unchanged\<close>

lemma preservesD: "preserves f m \<Longrightarrow> m s = (r, s') \<Longrightarrow> f s' = f s"
  by (metis preserves_def snd_conv)

lemma preserves_return: "preserves f (io_return x)"
  by (simp add: preserves_def io_return_def)

lemma preserves_throw: "preserves f (io_throw x)"
  by (simp add: preserves_def io_throw_def)

lemma preserves_bind:
  "preserves f m \<Longrightarrow> (\<And>x. preserves f (g x)) \<Longrightarrow> preserves f (io_bind m g)"
  by (auto simp: preserves_def io_bind_def split: prod.splits sum.splits) (metis snd_conv)+

lemma preserves_catch:
  "preserves f m \<Longrightarrow> (\<And>x. preserves f (h x)) \<Longrightarrow> preserves f (io_catch m h)"
  by (auto simp: preserves_def io_catch_def split: prod.splits sum.splits) (metis snd_conv)+

lemma preserves_all: "(\<And>m. m \<in> set ms \<Longrightarrow> preserves f m) \<Longrightarrow> preserves f (io_all ms)"
proof (induction ms)
  case Nil
  then show ?case by (simp add: preserves_def)
next
  case (Cons m ms)
  have a: "preserves f m" and b: "preserves f (io_all ms)"
    using Cons by simp_all
  show ?case
    unfolding preserves_def
  proof
    fix s
    obtain r s1 where m: "m s = (r, s1)" by (cases "m s")
    obtain rs s2 where ms: "io_all ms s1 = (rs, s2)" by (cases "io_all ms s1")
    have "f s1 = f s" using a m by (rule preservesD)
    moreover have "f s2 = f s1" using b ms by (rule preservesD)
    ultimately show "f (snd (io_all (m # ms) s)) = f s"
      by (simp add: m ms)
  qed
qed

lemma preserves_if:
  "(c \<Longrightarrow> preserves f a) \<Longrightarrow> (\<not> c \<Longrightarrow> preserves f b) \<Longrightarrow> preserves f (if c then a else b)"
  by simp

lemma preserves_external_db: "preserves db_of (external c a)"
  by (simp add: preserves_def external_def db_of_def)

lemma preserves_external_calls: "\<not> P c \<Longrightarrow> preserves (\<lambda>s. filter P (calls s)) (external c a)"
  by (simp add: preserves_def external_def)

lemmas preserves_intros =
  preserves_bind preserves_catch preserves_all preserves_if preserves_return preserves_throw

lemmas service_defs = searchJobs_def searchJobs_index_def searchJobs_db_def searchJobs_page_def
  searchJobs_perPage_def searchJobs_sortBy_def searchJobs_sortOrder_def esQuery_body_def
  db_filter_def pick_def criteria_prop_def must_clause_def List.map_filter_def
  getJobCandidates_def candidateQuery_def esClient_search_def esClient_get_def Role_findAll_def
  checkIsMemberOfProject_def getSkillById_def getUserId_def postEvent_def uuid_v4_def
  logFullError_def logInfo_def logDebug_def Job_findAll_def Job_findById_def Job_create_def
  Job_update_def Job_destroy_def eval_where_def order_rows_def candidates_of_def get_prop_def
  assign_def candidates_dataValues_def array_items_def getJob_def getJob_index_def getJob_db_def
  checkUserPermissionForGetJob_def createJob_def updateJob_def deleteJob_def validateSkills_def
  validateRoles_def skillLookup_def difference_def ForbiddenError_def NotFoundError_def
  BadRequestError_def TypeError_def FORBIDDEN_def NOT_FOUND_def BAD_REQUEST_def

subsection \<open>The two paths of searchJobs\<close>

lemma getJobCandidates_db: "preserves db_of (getJobCandidates e j)"
  unfolding getJobCandidates_def esClient_search_def
  by (intro preserves_intros preserves_external_db)

lemma searchJobs_index_db: "preserves db_of (searchJobs_index e c k d pg pp)"
  unfolding searchJobs_index_def esClient_search_def logDebug_def Let_def
  by (intro preserves_intros preserves_external_db) (auto intro!: preserves_intros getJobCandidates_db)

lemma searchJobs_index_fields:
  "searchJobs_index e c k d pg pp s = (Inr r, s') \<Longrightarrow>
     fromDb r = None \<and> search_result.page r = pg \<and> search_result.perPage r = pp \<and>
     (\<exists>body. esSearch e (ES_INDEX_JOB (cfg e)) (esQuery_body c k d pg pp) = Inr body \<and> total r = total_value body)"
  by (auto simp: searchJobs_index_def esClient_search_def logDebug_def io_defs Let_def split: sum.splits prod.splits if_splits)

lemma searchJobs_db_fields:
  "searchJobs_db c k d pg pp s = (Inr r, s') \<Longrightarrow>
     fromDb r = Some True \<and> search_result.page r = pg \<and> search_result.perPage r = pp \<and>
     total r = int (length (result r)) \<and>
     result r = map (\<lambda>row. set_prop ''candidates'' (candidates_of s (get_prop row ''id'')) row)
       (take (nat pp) (drop (nat ((pg - 1) * pp))
          (order_rows (k, d) (filter (eval_where (db_filter c)) (jobs s)))))"
  by (auto simp: searchJobs_db_def Job_findAll_def logInfo_def io_defs Let_def candidates_of_def split: sum.splits prod.splits if_splits)

lemma searchJobs_run:
  assumes run: "searchJobs e u c opts s = (Inr r, s')"
  shows "\<exists>s1. db_of s1 = db_of s \<and>
     (searchJobs_index e c (searchJobs_sortBy c) (searchJobs_sortOrder c) (searchJobs_page c)
          (searchJobs_perPage c opts) s1 = (Inr r, s')
      \<or> (\<exists>err s2. searchJobs_index e c (searchJobs_sortBy c) (searchJobs_sortOrder c)
             (searchJobs_page c) (searchJobs_perPage c opts) s1 = (Inl err, s2)
           \<and> searchJobs_db c (searchJobs_sortBy c) (searchJobs_sortOrder c) (searchJobs_page c)
               (searchJobs_perPage c opts) (s2\<lparr>calls := calls s2 @ [LogFullError err ''searchJobs'']\<rparr>)
               = (Inr r, s')))"
proof -
  define perm where "perm =
    (if \<not> hasManagePermission u \<and> \<not> isMachine u \<and> \<not> isConnectManager u \<and> \<not> returnAll opts
     then (if \<not> (case projectId c of Some n \<Rightarrow> n \<noteq> 0 | None \<Rightarrow> False)
           then io_throw (ForbiddenError ''Not allowed without filtering by \"projectId\"'')
           else checkIsMemberOfProject e (userId u) (map_option JNum (projectId c)))
     else io_return ())"
  define idx where "idx = searchJobs_index e c (searchJobs_sortBy c) (searchJobs_sortOrder c)
     (searchJobs_page c) (searchJobs_perPage c opts)"
  define dbq where "dbq = searchJobs_db c (searchJobs_sortBy c) (searchJobs_sortOrder c)
     (searchJobs_page c) (searchJobs_perPage c opts)"
  have eq: "searchJobs e u c opts =
      io_bind perm (\<lambda>_. io_bind (io_catch (io_bind idx (\<lambda>r. io_return (Some r)))
           (\<lambda>err. io_bind (logFullError err ''searchJobs'') (\<lambda>_. io_return None)))
         (\<lambda>answered. case answered of Some r \<Rightarrow> io_return r | None \<Rightarrow> dbq))"
    by (simp add: searchJobs_def perm_def idx_def dbq_def Let_def)
  have pperm: "preserves db_of perm"
    unfolding perm_def checkIsMemberOfProject_def
    by (intro preserves_intros preserves_external_db)
  obtain s1 where p1: "perm s = (Inr (), s1)"
    and rest: "io_bind (io_catch (io_bind idx (\<lambda>r. io_return (Some r)))
           (\<lambda>err. io_bind (logFullError err ''searchJobs'') (\<lambda>_. io_return None)))
         (\<lambda>answered. case answered of Some r \<Rightarrow> io_return r | None \<Rightarrow> dbq) s1 = (Inr r, s')"
    using run unfolding eq by (auto simp: io_bind_def split: prod.splits sum.splits)
  have db1: "db_of s1 = db_of s"
    using pperm p1 by (rule preservesD)
  obtain ri s2 where i: "idx s1 = (ri, s2)"
    by (cases "idx s1")
  have "idx s1 = (Inr r, s') \<or> (\<exists>err s2. idx s1 = (Inl err, s2) \<and>
          dbq (s2\<lparr>calls := calls s2 @ [LogFullError err ''searchJobs'']\<rparr>) = (Inr r, s'))"
    using rest i by (cases ri) (auto simp: io_defs logFullError_def)
  then show ?thesis
    using db1 unfolding idx_def dbq_def by blast
qed

lemma length_insert_row: "length (insert_row le r xs) = Suc (length xs)"
  by (induction xs) auto

lemma length_sort_rows: "length (sort_rows le xs) = length xs"
  by (induction xs) (auto simp: length_insert_row)

lemma length_order_rows: "length (order_rows ord xs) = length xs"
  by (simp add: order_rows_def length_sort_rows)

lemma searchJobs_perPage_pos: "0 < searchJobs_perPage c opts"
  by (simp add: searchJobs_perPage_def split: option.splits)

subsection \<open>The queries that searchJobs issues\<close>

lemma extendsD: "extends m \<Longrightarrow> m s = (r, s') \<Longrightarrow> \<exists>xs. calls s' = calls s @ xs"
  by (metis extends_def snd_conv)

lemma extends_return: "extends (io_return x)"
  by (simp add: extends_def io_return_def)

lemma extends_throw: "extends (io_throw x)"
  by (simp add: extends_def io_throw_def)

lemma extends_external: "extends (external c a)"
  by (simp add: extends_def external_def)

lemma extends_bind: "extends m \<Longrightarrow> (\<And>x. extends (g x)) \<Longrightarrow> extends (io_bind m g)"
  unfolding extends_def
proof
  fix s
  assume m: "\<forall>s. \<exists>xs. calls (snd (m s)) = calls s @ xs"
    and g: "\<And>x. \<forall>s. \<exists>xs. calls (snd (g x s)) = calls s @ xs"
  obtain r s1 where ms: "m s = (r, s1)" by (cases "m s")
  from m ms obtain xs where a: "calls s1 = calls s @ xs" by (metis snd_conv)
  show "\<exists>xs. calls (snd (io_bind m g s)) = calls s @ xs"
  proof (cases r)
    case (Inl e)
    then show ?thesis using ms a by (simp add: io_bind_def)
  next
    case (Inr x)
    from g[of x] obtain ys where "calls (snd (g x s1)) = calls s1 @ ys" by blast
    then show ?thesis using ms a Inr by (simp add: io_bind_def)
  qed
qed

lemma extends_if: "(c \<Longrightarrow> extends a) \<Longrightarrow> (\<not> c \<Longrightarrow> extends b) \<Longrightarrow> extends (if c then a else b)"
  by simp

lemma extends_all: "(\<And>m. m \<in> set ms \<Longrightarrow> extends m) \<Longrightarrow> extends (io_all ms)"
proof (induction ms)
  case Nil
  then show ?case by (simp add: extends_def)
next
  case (Cons m ms)
  have a: "extends m" and b: "extends (io_all ms)"
    using Cons by simp_all
  show ?case
    unfolding extends_def
  proof
    fix s
    obtain r s1 where m: "m s = (r, s1)" by (cases "m s")
    obtain rs s2 where ms: "io_all ms s1 = (rs, s2)" by (cases "io_all ms s1")
    from extendsD[OF a m] obtain xs where x: "calls s1 = calls s @ xs" by blast
    from extendsD[OF b ms] obtain ys where y: "calls s2 = calls s1 @ ys" by blast
    show "\<exists>xs. calls (snd (io_all (m # ms) s)) = calls s @ xs"
      using x y by (simp add: m ms)
  qed
qed

lemmas extends_intros = extends_bind extends_all extends_if extends_return extends_throw
  extends_external

lemma getJobCandidates_extends: "extends (getJobCandidates e j)"
  unfolding getJobCandidates_def esClient_search_def
  by (intro extends_intros)

lemma searchJobs_index_trace:
  assumes "searchJobs_index e c k d pg pp s = (r, s')"
  shows "\<exists>post. calls s' = calls s @
           [LogDebug ''searchJobs'' (JObj [(''index'', JStr (ES_INDEX_JOB (cfg e))),
                                           (''body'', esQuery_body c k d pg pp)]),
            EsSearch (ES_INDEX_JOB (cfg e)) (esQuery_body c k d pg pp)] @ post"
proof -
  let ?s2 = "s\<lparr>calls := calls s @
           [LogDebug ''searchJobs'' (JObj [(''index'', JStr (ES_INDEX_JOB (cfg e))),
                                           (''body'', esQuery_body c k d pg pp)]),
            EsSearch (ES_INDEX_JOB (cfg e)) (esQuery_body c k d pg pp)]\<rparr>"
  show ?thesis
  proof (cases "esSearch e (ES_INDEX_JOB (cfg e)) (esQuery_body c k d pg pp)")
    case (Inl err)
    then have "s' = ?s2"
      using assms
      by (simp add: searchJobs_index_def esClient_search_def logDebug_def io_defs Let_def)
    then show ?thesis by simp
  next
    case (Inr body)
    let ?rest = "io_bind (io_all (map (\<lambda>hit::es_hit.
                 let jobRecord = set_prop ''id'' (JStr (hit_id hit)) (hit_source hit) in
                 io_bind (getJobCandidates e (hit_id hit)) (\<lambda>candidates.
                   io_return (if candidates \<noteq> []
                              then set_prop ''candidates'' (JArr (map JObj candidates)) jobRecord
                              else jobRecord))) (hits body))) (\<lambda>res.
        io_return \<lparr>fromDb = None, total = total_value body, page = pg, perPage = pp,
                   result = res\<rparr>)"
    have run: "?rest ?s2 = (r, s')"
      using assms Inr
      by (simp add: searchJobs_index_def esClient_search_def logDebug_def io_bind_def
          external_def Let_def)
    have "extends ?rest"
      by (intro extends_intros) (auto simp: Let_def intro!: extends_intros getJobCandidates_extends)
    from extendsD[OF this run] obtain xs where "calls s' = calls ?s2 @ xs" by blast
    then show ?thesis by simp
  qed
qed

lemma searchJobs_db_trace:
  "searchJobs_db c k d pg pp s = (r, s') \<Longrightarrow>
     calls s' = calls s @ [LogInfo ''searchJobs'' ''fallback to DB query'',
       JobFindAll \<lparr>f_where = db_filter c, f_offset = (pg - 1) * pp, f_limit = pp,
                   f_order = (k, d)\<rparr>]"
  by (auto simp: searchJobs_db_def Job_findAll_def logInfo_def io_defs Let_def split: if_splits)

lemma esQuery_body_window:
  "\<exists>q srt. esQuery_body c k d pg pp =
      JObj [(''query'', q), (''from'', JNum ((pg - 1) * pp)), (''size'', JNum pp), (''sort'', srt)]"
  by (simp add: esQuery_body_def)

lemma searchJobs_trace:
  assumes run: "searchJobs e u c opts s = (Inr r, s')"
  shows "(\<exists>pre post. calls s' = calls s @ pre @
            [EsSearch (ES_INDEX_JOB (cfg e))
               (esQuery_body c (searchJobs_sortBy c) (searchJobs_sortOrder c) (searchJobs_page c)
                  (searchJobs_perPage c opts))] @ post)
       \<and> (fromDb r = Some True \<longrightarrow>
            (\<exists>pre. calls s' = calls s @ pre @
              [JobFindAll \<lparr>f_where = db_filter c,
                  f_offset = (searchJobs_page c - 1) * searchJobs_perPage c opts,
                  f_limit = searchJobs_perPage c opts,
                  f_order = (searchJobs_sortBy c, searchJobs_sortOrder c)\<rparr>]))"
proof -
  define perm where "perm =
    (if \<not> hasManagePermission u \<and> \<not> isMachine u \<and> \<not> isConnectManager u \<and> \<not> returnAll opts
     then (if \<not> (case projectId c of Some n \<Rightarrow> n \<noteq> 0 | None \<Rightarrow> False)
           then io_throw (ForbiddenError ''Not allowed without filtering by \"projectId\"'')
           else checkIsMemberOfProject e (userId u) (map_option JNum (projectId c)))
     else io_return ())"
  define idx where "idx = searchJobs_index e c (searchJobs_sortBy c) (searchJobs_sortOrder c)
     (searchJobs_page c) (searchJobs_perPage c opts)"
  define dbq where "dbq = searchJobs_db c (searchJobs_sortBy c) (searchJobs_sortOrder c)
     (searchJobs_page c) (searchJobs_perPage c opts)"
  have eq: "searchJobs e u c opts =
      io_bind perm (\<lambda>_. io_bind (io_catch (io_bind idx (\<lambda>r. io_return (Some r)))
           (\<lambda>err. io_bind (logFullError err ''searchJobs'') (\<lambda>_. io_return None)))
         (\<lambda>answered. case answered of Some r \<Rightarrow> io_return r | None \<Rightarrow> dbq))"
    by (simp add: searchJobs_def perm_def idx_def dbq_def Let_def)
  have pperm: "extends perm"
    unfolding perm_def checkIsMemberOfProject_def
    by (intro extends_intros)
  obtain s1 where p1: "perm s = (Inr (), s1)"
    and rest: "io_bind (io_catch (io_bind idx (\<lambda>r. io_return (Some r)))
           (\<lambda>err. io_bind (logFullError err ''searchJobs'') (\<lambda>_. io_return None)))
         (\<lambda>answered. case answered of Some r \<Rightarrow> io_return r | None \<Rightarrow> dbq) s1 = (Inr r, s')"
    using run unfolding eq by (auto simp: io_bind_def split: prod.splits sum.splits)
  from extendsD[OF pperm p1] obtain p where c1: "calls s1 = calls s @ p" by blast
  obtain ri s2 where i: "idx s1 = (ri, s2)"
    by (cases "idx s1")
  from searchJobs_index_trace[OF i[unfolded idx_def]] obtain post where
    c2: "calls s2 = calls s1 @
           [LogDebug ''searchJobs'' (JObj [(''index'', JStr (ES_INDEX_JOB (cfg e))),
              (''body'', esQuery_body c (searchJobs_sortBy c) (searchJobs_sortOrder c)
                 (searchJobs_page c) (searchJobs_perPage c opts))]),
            EsSearch (ES_INDEX_JOB (cfg e)) (esQuery_body c (searchJobs_sortBy c)
              (searchJobs_sortOrder c) (searchJobs_page c) (searchJobs_perPage c opts))] @ post"
    by blast
  show ?thesis
  proof (cases ri)
    case (Inr x)
    then have e: "x = r" "s2 = s'"
      using rest i by (auto simp: io_defs)
    have f: "fromDb r = None"
      using searchJobs_index_fields[OF i[unfolded idx_def Inr e]] by simp
    have x: "calls s' = calls s @ (p @ [LogDebug ''searchJobs'' (JObj [(''index'', JStr (ES_INDEX_JOB (cfg e))),
              (''body'', esQuery_body c (searchJobs_sortBy c) (searchJobs_sortOrder c)
                 (searchJobs_page c) (searchJobs_perPage c opts))])]) @
            [EsSearch (ES_INDEX_JOB (cfg e)) (esQuery_body c (searchJobs_sortBy c)
              (searchJobs_sortOrder c) (searchJobs_page c) (searchJobs_perPage c opts))] @ post"
      using c1 c2 e by simp
    have A: "\<exists>pre post. calls s' = calls s @ pre @
            [EsSearch (ES_INDEX_JOB (cfg e))
               (esQuery_body c (searchJobs_sortBy c) (searchJobs_sortOrder c) (searchJobs_page c)
                  (searchJobs_perPage c opts))] @ post"
      using x by blast
    show ?thesis using A f by simp
  next
    case (Inl err)
    then have d: "dbq (s2\<lparr>calls := calls s2 @ [LogFullError err ''searchJobs'']\<rparr>) = (Inr r, s')"
      using rest i by (auto simp: io_defs logFullError_def)
    note t = searchJobs_db_trace[OF d[unfolded dbq_def]]
    have a: "calls s' = calls s @ (p @ [LogDebug ''searchJobs'' (JObj [(''index'', JStr (ES_INDEX_JOB (cfg e))),
              (''body'', esQuery_body c (searchJobs_sortBy c) (searchJobs_sortOrder c)
                 (searchJobs_page c) (searchJobs_perPage c opts))])]) @
            [EsSearch (ES_INDEX_JOB (cfg e)) (esQuery_body c (searchJobs_sortBy c)
              (searchJobs_sortOrder c) (searchJobs_page c) (searchJobs_perPage c opts))] @
            (post @ [LogFullError err ''searchJobs'', LogInfo ''searchJobs'' ''fallback to DB query'',
              JobFindAll \<lparr>f_where = db_filter c,
                  f_offset = (searchJobs_page c - 1) * searchJobs_perPage c opts,
                  f_limit = searchJobs_perPage c opts,
                  f_order = (searchJobs_sortBy c, searchJobs_sortOrder c)\<rparr>])"
      using c1 c2 t by simp
    have b: "calls s' = calls s @ (p @ [LogDebug ''searchJobs'' (JObj [(''index'', JStr (ES_INDEX_JOB (cfg e))),
              (''body'', esQuery_body c (searchJobs_sortBy c) (searchJobs_sortOrder c)
                 (searchJobs_page c) (searchJobs_perPage c opts))]),
            EsSearch (ES_INDEX_JOB (cfg e)) (esQuery_body c (searchJobs_sortBy c)
              (searchJobs_sortOrder c) (searchJobs_page c) (searchJobs_perPage c opts))] @
            post @ [LogFullError err ''searchJobs'', LogInfo ''searchJobs'' ''fallback to DB query'']) @
              [JobFindAll \<lparr>f_where = db_filter c,
                  f_offset = (searchJobs_page c - 1) * searchJobs_perPage c opts,
                  f_limit = searchJobs_perPage c opts,
                  f_order = (searchJobs_sortBy c, searchJobs_sortOrder c)\<rparr>]"
      using c1 c2 t by simp
    have A: "\<exists>pre post. calls s' = calls s @ pre @
            [EsSearch (ES_INDEX_JOB (cfg e))
               (esQuery_body c (searchJobs_sortBy c) (searchJobs_sortOrder c) (searchJobs_page c)
                  (searchJobs_perPage c opts))] @ post"
      using a by blast
    have B: "\<exists>pre. calls s' = calls s @ pre @
              [JobFindAll \<lparr>f_where = db_filter c,
                  f_offset = (searchJobs_page c - 1) * searchJobs_perPage c opts,
                  f_limit = searchJobs_perPage c opts,
                  f_order = (searchJobs_sortBy c, searchJobs_sortOrder c)\<rparr>]"
      using b by blast
    show ?thesis using A B by simp
  qed
qed

subsection \<open>Pagination of searchJobs\<close>

text \<open>
  C6. Whenever \<^verbatim>\<open>searchJobs\<close> returns, on the index path or on the fallback path, the
  returned page is \<^verbatim>\<open>criteria.page\<close> when that is greater than 0 and 1 otherwise, and the
  returned page size is 10000 when \<^verbatim>\<open>options.returnAll\<close> holds, and otherwise
  \<^verbatim>\<open>criteria.perPage\<close> when that is greater than 0 and 20 otherwise. These are the
  values in effect: the query sent to the index has \<^verbatim>\<open>from\<close> equal to the returned page
  less one times the returned page size and \<^verbatim>\<open>size\<close> equal to the returned page size,
  and on the fallback path the last call is the query of the relational store with that
  \<^verbatim>\<open>offset\<close> and that \<^verbatim>\<open>limit\<close>.
\<close>

theorem searchJobs_pagination:
  assumes "searchJobs e currentUser c options s = (Inr r, s')"
  shows "search_result.page r = (case criteria.page c of Some p \<Rightarrow> (if p > 0 then p else 1) | None \<Rightarrow> 1)
       \<and> search_result.perPage r =
            (if returnAll options then 10000
             else (case criteria.perPage c of Some n \<Rightarrow> (if n > 0 then n else 20) | None \<Rightarrow> 20))
       \<and> (fromDb r = None \<or> fromDb r = Some True)
       \<and> (\<exists>q srt pre post. calls s' = calls s @ pre @
             [EsSearch (ES_INDEX_JOB (cfg e))
                (JObj [(''query'', q),
                       (''from'', JNum ((search_result.page r - 1) * search_result.perPage r)),
                       (''size'', JNum (search_result.perPage r)),
                       (''sort'', srt)])] @ post)
       \<and> (fromDb r = Some True \<longrightarrow>
             (\<exists>w ord pre. calls s' = calls s @ pre @
                [JobFindAll \<lparr>f_where = w,
                    f_offset = (search_result.page r - 1) * search_result.perPage r,
                    f_limit = search_result.perPage r, f_order = ord\<rparr>]))"
proof -
  have v: "search_result.page r = searchJobs_page c
         \<and> search_result.perPage r = searchJobs_perPage c options
         \<and> (fromDb r = None \<or> fromDb r = Some True)"
    using searchJobs_run[OF assms]
    by (auto dest!: searchJobs_index_fields searchJobs_db_fields)
  obtain q srt where w: "esQuery_body c (searchJobs_sortBy c) (searchJobs_sortOrder c)
        (searchJobs_page c) (searchJobs_perPage c options) =
      JObj [(''query'', q), (''from'', JNum ((searchJobs_page c - 1) * searchJobs_perPage c options)),
            (''size'', JNum (searchJobs_perPage c options)), (''sort'', srt)]"
    using esQuery_body_window by blast
  note t = searchJobs_trace[OF assms, unfolded w]
  have A: "\<exists>q srt pre post. calls s' = calls s @ pre @
             [EsSearch (ES_INDEX_JOB (cfg e))
                (JObj [(''query'', q),
                       (''from'', JNum ((search_result.page r - 1) * search_result.perPage r)),
                       (''size'', JNum (search_result.perPage r)),
                       (''sort'', srt)])] @ post"
    using t v by auto
  have B: "fromDb r = Some True \<longrightarrow>
             (\<exists>w ord pre. calls s' = calls s @ pre @
                [JobFindAll \<lparr>f_where = w,
                    f_offset = (search_result.page r - 1) * search_result.perPage r,
                    f_limit = search_result.perPage r, f_order = ord\<rparr>])"
    using t v by auto
  show ?thesis
    using v A B by (simp add: searchJobs_page_def searchJobs_perPage_def)
qed

text \<open>
  The index answers a search with page 0 and page size 5 as page 1 of size 5, asked
  from 0, and a search with page 4 and page size 0 as page 4 of size 20, asked from 60;
  the fallback answers an export of page 3 with the page size 10000, after the index
  and then the relational store were asked for 10000 rows from 20000.
\<close>

theorem searchJobs_pagination_witness:
  "(\<exists>r s'. searchJobs env_up machine (crit0\<lparr>criteria.page := Some 0, criteria.perPage := Some 5\<rparr>)
               \<lparr>returnAll = False\<rparr> st0 = (Inr r, s')
          \<and> fromDb r = None \<and> search_result.page r = 1 \<and> search_result.perPage r = 5
          \<and> (\<exists>q srt pre post. calls s' = pre @
                [EsSearch ''job'' (JObj [(''query'', q), (''from'', JNum 0), (''size'', JNum 5),
                                        (''sort'', srt)])] @ post))
   \<and> (\<exists>r s'. searchJobs env_up machine (crit0\<lparr>criteria.page := Some 4, criteria.perPage := Some 0\<rparr>)
               \<lparr>returnAll = False\<rparr> st0 = (Inr r, s')
          \<and> fromDb r = None \<and> search_result.page r = 4 \<and> search_result.perPage r = 20
          \<and> (\<exists>q srt pre post. calls s' = pre @
                [EsSearch ''job'' (JObj [(''query'', q), (''from'', JNum 60), (''size'', JNum 20),
                                        (''sort'', srt)])] @ post))
   \<and> (\<exists>r s'. searchJobs env_down machine (crit0\<lparr>criteria.page := Some 3, criteria.perPage := Some 5\<rparr>)
               \<lparr>returnAll = True\<rparr> st0 = (Inr r, s')
          \<and> fromDb r = Some True \<and> search_result.page r = 3 \<and> search_result.perPage r = 10000
          \<and> (\<exists>q srt pre post. calls s' = pre @
                [EsSearch ''job'' (JObj [(''query'', q), (''from'', JNum 20000), (''size'', JNum 10000),
                                        (''sort'', srt)])] @ post)
          \<and> (\<exists>w ord pre. calls s' = pre @
                [JobFindAll \<lparr>f_where = w, f_offset = 20000, f_limit = 10000, f_order = ord\<rparr>]))"
proof -
  have i: "ES_INDEX_JOB (cfg env_up) = ''job''" "ES_INDEX_JOB (cfg env_down) = ''job''"
    by (simp_all add: fixture_defs)
  have z: "calls st0 = []"
    by (simp add: st0_def)
  obtain r1 s1 where run1:
      "searchJobs env_up machine (crit0\<lparr>criteria.page := Some 0, criteria.perPage := Some 5\<rparr>)
         \<lparr>returnAll = False\<rparr> st0 = (Inr r1, s1)" and f1: "fromDb r1 = None"
    by (simp add: service_defs fixture_defs io_defs Let_def)
  obtain r2 s2 where run2:
      "searchJobs env_up machine (crit0\<lparr>criteria.page := Some 4, criteria.perPage := Some 0\<rparr>)
         \<lparr>returnAll = False\<rparr> st0 = (Inr r2, s2)" and f2: "fromDb r2 = None"
    by (simp add: service_defs fixture_defs io_defs Let_def)
  obtain r3 s3 where run3:
      "searchJobs env_down machine (crit0\<lparr>criteria.page := Some 3, criteria.perPage := Some 5\<rparr>)
         \<lparr>returnAll = True\<rparr> st0 = (Inr r3, s3)" and f3: "fromDb r3 = Some True"
    by (simp add: service_defs fixture_defs io_defs Let_def)
  note t1 = searchJobs_pagination[OF run1, unfolded i z]
  note t2 = searchJobs_pagination[OF run2, unfolded i z]
  note t3 = searchJobs_pagination[OF run3, unfolded i z]
  have p1: "search_result.page r1 = 1" "search_result.perPage r1 = 5"
    using t1 by (simp_all add: crit0_def)
  have p2: "search_result.page r2 = 4" "search_result.perPage r2 = 20"
    using t2 by (simp_all add: crit0_def)
  have p3: "search_result.page r3 = 3" "search_result.perPage r3 = 10000"
    using t3 by (simp_all add: crit0_def)
  have q1: "\<exists>q srt pre post. calls s1 = pre @
                [EsSearch ''job'' (JObj [(''query'', q), (''from'', JNum 0), (''size'', JNum 5),
                                        (''sort'', srt)])] @ post"
    using t1 unfolding p1 by simp
  have q2: "\<exists>q srt pre post. calls s2 = pre @
                [EsSearch ''job'' (JObj [(''query'', q), (''from'', JNum 60), (''size'', JNum 20),
                                        (''sort'', srt)])] @ post"
    using t2 unfolding p2 by simp
  have q3: "\<exists>q srt pre post. calls s3 = pre @
                [EsSearch ''job'' (JObj [(''query'', q), (''from'', JNum 20000), (''size'', JNum 10000),
                                        (''sort'', srt)])] @ post"
    using t3 unfolding p3 by simp
  have d3: "\<exists>w ord pre. calls s3 = pre @
                [JobFindAll \<lparr>f_where = w, f_offset = 20000, f_limit = 10000, f_order = ord\<rparr>]"
    using t3 f3 unfolding p3 by simp
  show ?thesis
  proof (intro conjI)
    show "\<exists>r s'. searchJobs env_up machine (crit0\<lparr>criteria.page := Some 0, criteria.perPage := Some 5\<rparr>)
               \<lparr>returnAll = False\<rparr> st0 = (Inr r, s')
          \<and> fromDb r = None \<and> search_result.page r = 1 \<and> search_result.perPage r = 5
          \<and> (\<exists>q srt pre post. calls s' = pre @
                [EsSearch ''job'' (JObj [(''query'', q), (''from'', JNum 0), (''size'', JNum 5),
                                        (''sort'', srt)])] @ post)"
      apply (rule exI[of _ r1])
      apply (rule exI[of _ s1])
      using run1 f1 p1 q1 apply (intro conjI)
      apply assumption+
      done
    show "\<exists>r s'. searchJobs env_up machine (crit0\<lparr>criteria.page := Some 4, criteria.perPage := Some 0\<rparr>)
               \<lparr>returnAll = False\<rparr> st0 = (Inr r, s')
          \<and> fromDb r = None \<and> search_result.page r = 4 \<and> search_result.perPage r = 20
          \<and> (\<exists>q srt pre post. calls s' = pre @
                [EsSearch ''job'' (JObj [(''query'', q), (''from'', JNum 60), (''size'', JNum 20),
                                        (''sort'', srt)])] @ post)"
      apply (rule exI[of _ r2])
      apply (rule exI[of _ s2])
      using run2 f2 p2 q2 apply (intro conjI)
      apply assumption+
      done
    show "\<exists>r s'. searchJobs env_down machine (crit0\<lparr>criteria.page := Some 3, criteria.perPage := Some 5\<rparr>)
               \<lparr>returnAll = True\<rparr> st0 = (Inr r, s')
          \<and> fromDb r = Some True \<and> search_result.page r = 3 \<and> search_result.perPage r = 10000
          \<and> (\<exists>q srt pre post. calls s' = pre @
                [EsSearch ''job'' (JObj [(''query'', q), (''from'', JNum 20000), (''size'', JNum 10000),
                                        (''sort'', srt)])] @ post)
          \<and> (\<exists>w ord pre. calls s' = pre @
                [JobFindAll \<lparr>f_where = w, f_offset = 20000, f_limit = 10000, f_order = ord\<rparr>])"
      apply (rule exI[of _ r3])
      apply (rule exI[of _ s3])
      using run3 f3 p3 q3 d3 apply (intro conjI)
      apply assumption+
      done
  qed
qed

subsection \<open>The total of a search\<close>

text \<open>
  C7. A search answered by the relational fallback returns as \<open>total\<close> the number of rows
  of the page it returns, which is at most the page size in effect and is the length of
  that page of the matching rows, not the number of matching rows; a search answered by
  the index returns as \<open>total\<close> the hit count of the index response.
\<close>

theorem searchJobs_total:
  assumes "searchJobs e currentUser c options s = (Inr r, s')"
  shows "(fromDb r = Some True \<and> total r = int (length (result r)) \<and> total r \<le> search_result.perPage r
          \<and> length (result r) =
              length (take (nat (search_result.perPage r))
                       (drop (nat ((search_result.page r - 1) * search_result.perPage r))
                          (filter (eval_where (db_filter c)) (jobs s)))))
       \<or> (fromDb r = None \<and>
           (\<exists>body. esSearch e (ES_INDEX_JOB (cfg e))
                      (esQuery_body c (searchJobs_sortBy c) (searchJobs_sortOrder c)
                         (search_result.page r) (search_result.perPage r)) = Inr body
                   \<and> total r = total_value body))"
proof -
  from searchJobs_run[OF assms] obtain s1 where db1: "db_of s1 = db_of s"
    and alt: "searchJobs_index e c (searchJobs_sortBy c) (searchJobs_sortOrder c) (searchJobs_page c)
          (searchJobs_perPage c options) s1 = (Inr r, s')
      \<or> (\<exists>err s2. searchJobs_index e c (searchJobs_sortBy c) (searchJobs_sortOrder c)
             (searchJobs_page c) (searchJobs_perPage c options) s1 = (Inl err, s2)
           \<and> searchJobs_db c (searchJobs_sortBy c) (searchJobs_sortOrder c) (searchJobs_page c)
               (searchJobs_perPage c options) (s2\<lparr>calls := calls s2 @ [LogFullError err ''searchJobs'']\<rparr>)
               = (Inr r, s'))"
    by blast
  from alt show ?thesis
  proof
    assume "searchJobs_index e c (searchJobs_sortBy c) (searchJobs_sortOrder c) (searchJobs_page c)
          (searchJobs_perPage c options) s1 = (Inr r, s')"
    from searchJobs_index_fields[OF this] show ?thesis by auto
  next
    assume "\<exists>err s2. searchJobs_index e c (searchJobs_sortBy c) (searchJobs_sortOrder c)
             (searchJobs_page c) (searchJobs_perPage c options) s1 = (Inl err, s2)
           \<and> searchJobs_db c (searchJobs_sortBy c) (searchJobs_sortOrder c) (searchJobs_page c)
               (searchJobs_perPage c options) (s2\<lparr>calls := calls s2 @ [LogFullError err ''searchJobs'']\<rparr>)
               = (Inr r, s')"
    then obtain err s2 where i: "searchJobs_index e c (searchJobs_sortBy c) (searchJobs_sortOrder c)
             (searchJobs_page c) (searchJobs_perPage c options) s1 = (Inl err, s2)"
      and d: "searchJobs_db c (searchJobs_sortBy c) (searchJobs_sortOrder c) (searchJobs_page c)
               (searchJobs_perPage c options) (s2\<lparr>calls := calls s2 @ [LogFullError err ''searchJobs'']\<rparr>)
               = (Inr r, s')"
      by blast
    have "db_of s2 = db_of s1"
      using searchJobs_index_db i by (rule preservesD)
    then have j: "jobs (s2\<lparr>calls := calls s2 @ [LogFullError err ''searchJobs'']\<rparr>) = jobs s"
      using db1 by (simp add: db_of_def)
    note f = searchJobs_db_fields[OF d]
    have pp: "search_result.perPage r = searchJobs_perPage c options"
      and pg: "search_result.page r = searchJobs_page c"
      using f by simp_all
    have len: "length (result r) = length (take (nat (search_result.perPage r))
                       (drop (nat ((search_result.page r - 1) * search_result.perPage r))
                          (filter (eval_where (db_filter c)) (jobs s))))"
      using f unfolding j pp pg by (simp add: length_order_rows)
    have "int (length (result r)) \<le> search_result.perPage r"
      unfolding len using searchJobs_perPage_pos[of c options] pp by simp
    then show ?thesis using f len by simp
  qed
qed

text \<open>
  With the index out of reach and a page size of 1, two rows match and the total is 1;
  with the index in reach, the total is the 12 the index reports for a page of one hit.
\<close>

theorem searchJobs_total_witness:
  "(\<exists>r s'. searchJobs env_down machine (crit0\<lparr>criteria.perPage := Some 1\<rparr>) \<lparr>returnAll = False\<rparr> st2
              = (Inr r, s')
          \<and> fromDb r = Some True \<and> total r = 1 \<and> length (result r) = 1
          \<and> length (filter (eval_where (db_filter (crit0\<lparr>criteria.perPage := Some 1\<rparr>))) (jobs st2)) = 2)
   \<and> (\<exists>r s'. searchJobs env_up machine crit0 \<lparr>returnAll = False\<rparr> st2 = (Inr r, s')
          \<and> fromDb r = None \<and> total r = 12 \<and> length (result r) = 1)"
proof -
  obtain r1 s1 where run1:
      "searchJobs env_down machine (crit0\<lparr>criteria.perPage := Some 1\<rparr>) \<lparr>returnAll = False\<rparr> st2
         = (Inr r1, s1)" and f1: "fromDb r1 = Some True" "length (result r1) = 1"
    by (simp add: service_defs fixture_defs st2_def io_defs Let_def)
  obtain r2 s2 where run2:
      "searchJobs env_up machine crit0 \<lparr>returnAll = False\<rparr> st2 = (Inr r2, s2)"
      and f2: "fromDb r2 = None" "length (result r2) = 1"
    by (simp add: service_defs fixture_defs st2_def io_defs Let_def)
  have m: "length (filter (eval_where (db_filter (crit0\<lparr>criteria.perPage := Some 1\<rparr>))) (jobs st2)) = 2"
    by (simp add: service_defs fixture_defs st2_def)
  have "total r1 = 1"
    using searchJobs_total[OF run1] f1 by simp
  moreover have "total r2 = 12"
    using searchJobs_total[OF run2] f2 by (simp add: service_defs fixture_defs)
  ultimately show ?thesis
    using run1 f1 run2 f2 m by blast
qed

subsection \<open>Partial and full update\<close>

text \<open>
  C9. \<^verbatim>\<open>partiallyUpdateJob\<close> and \<^verbatim>\<open>fullyUpdateJob\<close> are the same operation: for every caller,
  job id, payload and state they return the same result and leave the same state, both
  being \<^verbatim>\<open>updateJob\<close> on the three arguments it declares; the flag they pass is dropped.
\<close>

theorem update_variants_same:
  "partiallyUpdateJob e currentUser i data = fullyUpdateJob e currentUser i data
   \<and> fullyUpdateJob e currentUser i data = updateJob e currentUser i data"
  by (simp add: partiallyUpdateJob_def fullyUpdateJob_def updateJob_call_def)

text \<open>Both variants rename the job \<open>j1\<close> for its creator, and merge the payload into the row.\<close>

theorem update_variants_same_witness:
  "partiallyUpdateJob env_up member ''j1'' [(''title'', JStr ''lead'')] st0
     = fullyUpdateJob env_up member ''j1'' [(''title'', JStr ''lead'')] st0
   \<and> fst (fullyUpdateJob env_up member ''j1'' [(''title'', JStr ''lead'')] st0)
     = Inr [(''id'', JStr ''j1''), (''projectId'', JNum 2), (''title'', JStr ''lead''),
            (''createdBy'', JStr ''u7''), (''updatedBy'', JStr ''u7''), (''candidates'', JArr [])]
   \<and> jobs (snd (partiallyUpdateJob env_up member ''j1'' [(''title'', JStr ''lead'')] st0))
     = [[(''id'', JStr ''j1''), (''projectId'', JNum 2), (''title'', JStr ''lead''),
            (''createdBy'', JStr ''u7''), (''updatedBy'', JStr ''u7'')]]"
proof -
  have "fst (updateJob env_up member ''j1'' [(''title'', JStr ''lead'')] st0)
     = Inr [(''id'', JStr ''j1''), (''projectId'', JNum 2), (''title'', JStr ''lead''),
            (''createdBy'', JStr ''u7''), (''updatedBy'', JStr ''u7''), (''candidates'', JArr [])]"
    by (simp add: service_defs fixture_defs io_defs Let_def)
  moreover have "jobs (snd (updateJob env_up member ''j1'' [(''title'', JStr ''lead'')] st0))
     = [[(''id'', JStr ''j1''), (''projectId'', JNum 2), (''title'', JStr ''lead''),
            (''createdBy'', JStr ''u7''), (''updatedBy'', JStr ''u7'')]]"
    by (simp add: service_defs fixture_defs io_defs Let_def)
  ultimately show ?thesis
    using update_variants_same[of env_up member "''j1''" "[(''title'', JStr ''lead'')]"] by simp
qed

subsection \<open>A document missing from the index\<close>

text \<open>
  C4. When \<^verbatim>\<open>getJob\<close> is called with \<^verbatim>\<open>fromDb = false\<close> and the index answers the read of
  the requested id with a document-missing error, the operation fails with NotFound; the
  only call made is the index read, and the relational store is not queried.
\<close>

theorem getJob_document_missing:
  assumes "esGet e (ES_INDEX_JOB (cfg e)) i = Inl err" and "isDocumentMissingException e err"
  shows "getJob e currentUser i False s =
           (Inl (NotFoundError (''id: '' @ i @ '' \"Job\" not found'')),
            s\<lparr>calls := calls s @ [EsGet (ES_INDEX_JOB (cfg e)) i]\<rparr>)
         \<and> filter is_db_call (calls (snd (getJob e currentUser i False s))) = filter is_db_call (calls s)"
  using assms by (simp add: getJob_def getJob_index_def esClient_get_def io_defs)

text \<open>The job \<open>j2\<close> is in the relational store but not in the index: the read is NotFound.\<close>

theorem getJob_document_missing_witness:
  "esGet env_up (ES_INDEX_JOB (cfg env_up)) ''j2'' = Inl missing_doc
   \<and> isDocumentMissingException env_up missing_doc
   \<and> List.find (\<lambda>r. get_prop r ''id'' = Some (JStr ''j2'')) (jobs st2) \<noteq> None
   \<and> getJob env_up machine ''j2'' False st2 =
       (Inl (NotFoundError ''id: j2 \"Job\" not found''), st2\<lparr>calls := [EsGet ''job'' ''j2'']\<rparr>)"
proof -
  have a: "esGet env_up (ES_INDEX_JOB (cfg env_up)) ''j2'' = Inl missing_doc"
    by (simp add: fixture_defs)
  have b: "isDocumentMissingException env_up missing_doc"
    by (simp add: fixture_defs)
  have c: "List.find (\<lambda>r. get_prop r ''id'' = Some (JStr ''j2'')) (jobs st2) \<noteq> None"
    by (simp add: fixture_defs st2_def get_prop_def)
  show ?thesis
    using a b c getJob_document_missing[OF a b, of machine st2]
    by (simp add: fixture_defs st2_def)
qed

subsection \<open>The order of the checks of updateJob\<close>

lemma skillLookup_settled:
  "skill_settled e sk \<Longrightarrow>
     skillLookup e sk s = (Inr (skill_found e sk, sk), s\<lparr>calls := calls s @ [GetSkillById sk]\<rparr>)"
  by (auto simp: skill_settled_def skill_found_def skillLookup_def getSkillById_def io_defs
           split: sum.splits)

lemma io_all_skillLookup:
  "list_all (skill_settled e) xs \<Longrightarrow>
     io_all (map (skillLookup e) xs) s =
       (Inr (map (\<lambda>sk. (skill_found e sk, sk)) xs), s\<lparr>calls := calls s @ map GetSkillById xs\<rparr>)"
proof (induction xs arbitrary: s)
  case Nil
  then show ?case by simp
next
  case (Cons x xs)
  then show ?case by (simp add: skillLookup_settled)
qed

lemma filter_not_found:
  "filter (\<lambda>res. \<not> fst res) (map (\<lambda>sk. (skill_found e sk, sk)) xs)
     = map (\<lambda>sk. (False, sk)) (filter (\<lambda>sk. \<not> skill_found e sk) xs)"
  by (induction xs) auto

lemma validateSkills_settled:
  assumes "list_all (skill_settled e) xs"
  shows "validateSkills e (Some (JArr xs)) s =
           ((if list_all (skill_found e) xs then Inr ()
             else Inl (BadRequestError (''Invalid skills: [''
                    @ join_comma (map str_of (filter (\<lambda>sk. \<not> skill_found e sk) xs)) @ '']''))),
            s\<lparr>calls := calls s @ map GetSkillById xs\<rparr>)"
proof -
  have e: "(filter (\<lambda>sk. \<not> skill_found e sk) xs = []) = list_all (skill_found e) xs"
    by (induction xs) auto
  show ?thesis
    using e by (simp add: validateSkills_def io_bind_def io_return_def io_throw_def
        io_all_skillLookup[OF assms] filter_not_found Let_def comp_def)
qed

lemma found_settled: "skill_found e sk \<Longrightarrow> skill_settled e sk"
  by (simp add: skill_found_def skill_settled_def split: sum.splits)

lemma skills_step_pass:
  assumes "skills_pass e data"
  shows "(if truthy (get_prop data ''skills'') then validateSkills e (get_prop data ''skills'')
          else io_return ()) s = (Inr (), s\<lparr>calls := calls s @ skill_calls data\<rparr>)"
proof (cases "get_prop data ''skills''")
  case None
  then show ?thesis by (simp add: skill_calls_def io_return_def)
next
  case (Some v)
  show ?thesis
  proof (cases v)
    case (JArr xs)
    have f: "list_all (skill_found e) xs"
      using assms Some JArr by (simp add: skills_pass_def)
    then have "list_all (skill_settled e) xs"
      by (induction xs) (auto simp: found_settled)
    from validateSkills_settled[OF this] f show ?thesis
      using Some JArr by (simp add: skill_calls_def)
  qed (use assms Some in \<open>simp_all add: skills_pass_def skill_calls_def io_return_def\<close>)
qed

lemma roles_step_pass:
  assumes "roles_pass e data"
  shows "\<exists>data'. (if truthy (get_prop data ''roleIds'')
          then (let roleIds = uniq (array_items (get_prop data ''roleIds'')) in
                  io_bind (validateRoles e roleIds) (\<lambda>_.
                    io_return (set_prop ''roleIds'' (JArr roleIds) data)))
          else io_return data) s = (Inr data', s\<lparr>calls := calls s @ role_calls data\<rparr>)"
  using assms
  by (auto simp: roles_pass_def role_calls_def validateRoles_def Role_findAll_def io_defs Let_def
           split: sum.splits if_splits)

text \<open>
  C10. In \<^verbatim>\<open>updateJob\<close> the skill validation, the role validation and the job lookup run
  before the authorization checks, for every caller: a payload with a skill that is not
  found fails with BadRequest after the skill lookups alone; a payload whose skills pass
  and that has a role the role table does not hold fails with BadRequest after the role
  lookup; and when both validations pass and no job has the id, the update fails with
  the NotFound of the lookup. In none of the three has the caller's identity been
  resolved or compared with the creator.
\<close>

theorem updateJob_validation_before_authorization:
  "(get_prop data ''skills'' = Some (JArr xs) \<and> list_all (skill_settled e) xs
      \<and> \<not> list_all (skill_found e) xs
    \<longrightarrow> updateJob e currentUser i data s =
          (Inl (BadRequestError (''Invalid skills: [''
                  @ join_comma (map str_of (filter (\<lambda>sk. \<not> skill_found e sk) xs)) @ '']'')),
           s\<lparr>calls := calls s @ map GetSkillById xs\<rparr>))
   \<and> (skills_pass e data \<and> truthy (get_prop data ''roleIds'')
        \<and> roleFindAll e (uniq (array_items (get_prop data ''roleIds''))) = Inr found
        \<and> difference (uniq (array_items (get_prop data ''roleIds''))) found \<noteq> []
      \<longrightarrow> updateJob e currentUser i data s =
          (Inl (BadRequestError (''Invalid roles: ['' @ join_comma (map str_of
                  (difference (uniq (array_items (get_prop data ''roleIds''))) found)) @ '']'')),
           s\<lparr>calls := calls s @ skill_calls data
                 @ [RoleFindAll (uniq (array_items (get_prop data ''roleIds'')))]\<rparr>))
   \<and> (skills_pass e data \<and> roles_pass e data
        \<and> List.find (\<lambda>r. get_prop r ''id'' = Some (JStr i)) (jobs s) = None
      \<longrightarrow> updateJob e currentUser i data s =
          (Inl (NotFoundError (''id: '' @ i @ '' Job not found'')),
           s\<lparr>calls := calls s @ skill_calls data @ role_calls data @ [JobFindById i False]\<rparr>))"
proof (intro conjI impI)
  assume "get_prop data ''skills'' = Some (JArr xs) \<and> list_all (skill_settled e) xs
      \<and> \<not> list_all (skill_found e) xs"
  then show "updateJob e currentUser i data s =
          (Inl (BadRequestError (''Invalid skills: [''
                  @ join_comma (map str_of (filter (\<lambda>sk. \<not> skill_found e sk) xs)) @ '']'')),
           s\<lparr>calls := calls s @ map GetSkillById xs\<rparr>)"
    by (simp add: updateJob_def io_bind_def validateSkills_settled)
next
  assume a: "skills_pass e data \<and> truthy (get_prop data ''roleIds'')
        \<and> roleFindAll e (uniq (array_items (get_prop data ''roleIds''))) = Inr found
        \<and> difference (uniq (array_items (get_prop data ''roleIds''))) found \<noteq> []"
  then have sp: "skills_pass e data" by simp
  show "updateJob e currentUser i data s =
          (Inl (BadRequestError (''Invalid roles: ['' @ join_comma (map str_of
                  (difference (uniq (array_items (get_prop data ''roleIds''))) found)) @ '']'')),
           s\<lparr>calls := calls s @ skill_calls data
                 @ [RoleFindAll (uniq (array_items (get_prop data ''roleIds'')))]\<rparr>)"
    using a unfolding updateJob_def io_bind_def[of "if truthy (get_prop data ''skills'') then _ else _"]
      skills_step_pass[OF sp]
    by (simp add: validateRoles_def Role_findAll_def io_defs Let_def)
next
  assume a: "skills_pass e data \<and> roles_pass e data
        \<and> List.find (\<lambda>r. get_prop r ''id'' = Some (JStr i)) (jobs s) = None"
  then have sp: "skills_pass e data" and rp: "roles_pass e data" by simp_all
  obtain data' where r: "(if truthy (get_prop data ''roleIds'')
          then (let roleIds = uniq (array_items (get_prop data ''roleIds'')) in
                  io_bind (validateRoles e roleIds) (\<lambda>_.
                    io_return (set_prop ''roleIds'' (JArr roleIds) data)))
          else io_return data) (s\<lparr>calls := calls s @ skill_calls data\<rparr>)
       = (Inr data', s\<lparr>calls := calls s @ skill_calls data @ role_calls data\<rparr>)"
    using roles_step_pass[OF rp, of "s\<lparr>calls := calls s @ skill_calls data\<rparr>"] by auto
  show "updateJob e currentUser i data s =
          (Inl (NotFoundError (''id: '' @ i @ '' Job not found'')),
           s\<lparr>calls := calls s @ skill_calls data @ role_calls data @ [JobFindById i False]\<rparr>)"
    using a unfolding updateJob_def io_bind_def[of "if truthy (get_prop data ''skills'') then _ else _"]
      skills_step_pass[OF sp]
    apply (simp only: prod.case sum.case)
    unfolding io_bind_def[of "if truthy (get_prop data ''roleIds'') then _ else _"] r
    by (simp add: Job_findById_def io_defs Let_def)
qed

text \<open>
  The caller is neither privileged nor the creator of \<open>j1\<close>: an unknown skill and an
  unknown role give BadRequest, an unknown job id gives NotFound, and only a payload
  that passes all three is refused as Forbidden.
\<close>

theorem updateJob_validation_before_authorization_witness:
  "updateJob env_up outsider ''j1'' [(''skills'', JArr [JStr ''s1'', JStr ''bad''])] st0 =
     (Inl (BadRequestError ''Invalid skills: [bad]''),
      st0\<lparr>calls := [GetSkillById (JStr ''s1''), GetSkillById (JStr ''bad'')]\<rparr>)
   \<and> updateJob env_up outsider ''j1'' [(''roleIds'', JArr [JStr ''r1'', JStr ''r9'', JStr ''r1''])] st0 =
     (Inl (BadRequestError ''Invalid roles: [r9]''),
      st0\<lparr>calls := [RoleFindAll [JStr ''r1'', JStr ''r9'']]\<rparr>)
   \<and> updateJob env_up outsider ''j9'' [(''skills'', JArr [JStr ''s1'']), (''roleIds'', JArr [JStr ''r1''])] st0 =
     (Inl (NotFoundError ''id: j9 Job not found''),
      st0\<lparr>calls := [GetSkillById (JStr ''s1''), RoleFindAll [JStr ''r1''], JobFindById ''j9'' False]\<rparr>)
   \<and> fst (updateJob env_up outsider ''j1'' [(''skills'', JArr [JStr ''s1''])] st0) =
       Inl (ForbiddenError ''You are not allowed to perform this action!'')"
proof -
  let ?d1 = "[(''skills'', JArr [JStr ''s1'', JStr ''bad''])]"
  let ?d2 = "[(''roleIds'', JArr [JStr ''r1'', JStr ''r9'', JStr ''r1''])]"
  let ?d3 = "[(''skills'', JArr [JStr ''s1'']), (''roleIds'', JArr [JStr ''r1''])]"
  have h1: "get_prop ?d1 ''skills'' = Some (JArr [JStr ''s1'', JStr ''bad''])
      \<and> list_all (skill_settled env_up) [JStr ''s1'', JStr ''bad'']
      \<and> \<not> list_all (skill_found env_up) [JStr ''s1'', JStr ''bad'']"
    by (simp add: get_prop_def skill_settled_def skill_found_def fixture_defs NOT_FOUND_def)
  have h2: "skills_pass env_up ?d2 \<and> truthy (get_prop ?d2 ''roleIds'')
      \<and> roleFindAll env_up (uniq (array_items (get_prop ?d2 ''roleIds''))) = Inr [JStr ''r1'']
      \<and> difference (uniq (array_items (get_prop ?d2 ''roleIds''))) [JStr ''r1''] \<noteq> []"
    by (simp add: get_prop_def skills_pass_def array_items_def difference_def fixture_defs)
  have h3: "skills_pass env_up ?d3 \<and> roles_pass env_up ?d3
      \<and> List.find (\<lambda>r. get_prop r ''id'' = Some (JStr ''j9'')) (jobs st0) = None"
    by (simp add: get_prop_def skills_pass_def roles_pass_def skill_found_def array_items_def
        difference_def fixture_defs)
  note t = updateJob_validation_before_authorization
  have r1: "updateJob env_up outsider ''j1'' ?d1 st0 =
     (Inl (BadRequestError ''Invalid skills: [bad]''),
      st0\<lparr>calls := [GetSkillById (JStr ''s1''), GetSkillById (JStr ''bad'')]\<rparr>)"
    using h1 t[where data="?d1" and xs="[JStr ''s1'', JStr ''bad'']" and e=env_up and currentUser=outsider and i="''j1''" and s=st0]
    by (simp add: skill_found_def fixture_defs)
  have r2: "updateJob env_up outsider ''j1'' ?d2 st0 =
     (Inl (BadRequestError ''Invalid roles: [r9]''),
      st0\<lparr>calls := [RoleFindAll [JStr ''r1'', JStr ''r9'']]\<rparr>)"
    using h2 t[where data="?d2" and e=env_up and found="[JStr ''r1'']" and currentUser=outsider and i="''j1''" and s=st0]
    by (simp add: get_prop_def skill_calls_def array_items_def difference_def fixture_defs)
  have r3: "updateJob env_up outsider ''j9'' ?d3 st0 =
     (Inl (NotFoundError ''id: j9 Job not found''),
      st0\<lparr>calls := [GetSkillById (JStr ''s1''), RoleFindAll [JStr ''r1''], JobFindById ''j9'' False]\<rparr>)"
    using h3 t[where data="?d3" and e=env_up and currentUser=outsider and i="''j9''" and s=st0]
    by (simp add: get_prop_def skill_calls_def role_calls_def array_items_def fixture_defs)
  have r4: "fst (updateJob env_up outsider ''j1'' [(''skills'', JArr [JStr ''s1''])] st0) =
       Inl (ForbiddenError ''You are not allowed to perform this action!'')"
    by (simp add: service_defs fixture_defs io_defs Let_def)
  show ?thesis using r1 r2 r3 r4 by simp
qed

subsection \<open>Denial by the permission check\<close>

lemma get_prop_set_prop: "get_prop (set_prop k v ob) k' = (if k' = k then Some v else get_prop ob k')"
  by (induction ob) (auto simp: get_prop_def)




subsection \<open>The guard on isApplicationPageActive\<close>

lemma io_bind_assoc: "io_bind (io_bind m f) g = io_bind m (\<lambda>x. io_bind (f x) g)"
  by (rule ext) (simp add: io_bind_def split: prod.splits sum.splits)

lemma io_bind_return: "io_bind (io_return x) f = f x"
  by (rule ext) (simp add: io_bind_def io_return_def)

lemma io_bind_if: "io_bind (if c then a else b) k = (if c then io_bind a k else io_bind b k)"
  by simp

lemma isl_bind: "(\<And>x t. isl (fst (g x t))) \<Longrightarrow> isl (fst (io_bind m g s))"
  by (auto simp: io_bind_def split: prod.splits sum.splits)

lemma preserves_external:
  "(\<And>s. f (s\<lparr>calls := calls s @ [c]\<rparr>) = f s) \<Longrightarrow> preserves f (external c a)"
  by (simp add: preserves_def external_def)

lemma effects_call:
  "\<not> is_write_call c \<Longrightarrow> \<not> is_publish_call c \<Longrightarrow> effects (s\<lparr>calls := calls s @ [c]\<rparr>) = effects s"
  by (simp add: effects_def)

lemma validateSkills_effects: "preserves effects (validateSkills e v)"
proof -
  have l: "\<And>sk. preserves effects (skillLookup e sk)"
    unfolding skillLookup_def getSkillById_def
    by (intro preserves_intros preserves_external effects_call) simp_all
  show ?thesis
  proof (cases v)
    case None
    then show ?thesis by (simp add: validateSkills_def preserves_throw)
  next
    case (Some w)
    show ?thesis
    proof (cases w)
      case (JArr xs)
      show ?thesis
        unfolding validateSkills_def Some JArr option.case jsval.case Let_def
        by (intro preserves_intros) (auto simp: l)
    qed (simp_all add: Some validateSkills_def preserves_throw)
  qed
qed

lemma validateRoles_effects: "preserves effects (validateRoles e rs)"
  unfolding validateRoles_def Role_findAll_def Let_def
  by (intro preserves_intros preserves_external effects_call) simp_all

lemma Job_findById_effects: "preserves effects (Job_findById i w)"
  by (simp add: preserves_def Job_findById_def effects_def Let_def split: option.splits)

lemma checkIsMemberOfProject_effects: "preserves effects (checkIsMemberOfProject e uid p)"
  unfolding checkIsMemberOfProject_def
  by (intro preserves_external effects_call) simp_all
lemma createJob_guarded:
  assumes "get_prop job ''isApplicationPageActive'' \<noteq> None" and "\<not> isMachine u"
  shows "createJob e u job =
     io_bind (if \<not> hasManagePermission u \<and> \<not> isMachine u
              then checkIsMemberOfProject e (userId u) (get_prop job ''projectId'')
              else io_return ()) (\<lambda>_. io_throw field_guard)"
  using assms by (simp add: createJob_def field_guard_def)

lemma updateJob_guarded:
  assumes "get_prop data ''isApplicationPageActive'' \<noteq> None" and "\<not> isMachine u"
  shows "updateJob e u i data =
     io_bind (if truthy (get_prop data ''skills'') then validateSkills e (get_prop data ''skills'')
              else io_return ()) (\<lambda>_.
     io_bind (if truthy (get_prop data ''roleIds'')
              then validateRoles e (uniq (array_items (get_prop data ''roleIds'')))
              else io_return ()) (\<lambda>_.
     io_bind (Job_findById i False) (\<lambda>job. io_throw field_guard)))"
  using assms
  by (cases "truthy (get_prop data ''roleIds'')")
     (simp_all add: updateJob_def field_guard_def Let_def io_bind_assoc io_bind_return
        get_prop_set_prop)

text \<open>
  C5, as the code has it. When the payload of \<^verbatim>\<open>createJob\<close> or \<^verbatim>\<open>updateJob\<close> defines
  \<^verbatim>\<open>isApplicationPageActive\<close> and the caller is not a machine, the operation fails, the
  tables of the relational store are unchanged and no write or publish call is made.
  The failure is the Forbidden of the guard when the checks that run before the guard
  pass: for \<^verbatim>\<open>createJob\<close> the membership check (skipped for a caller with manage
  permission), for \<^verbatim>\<open>updateJob\<close> the skill validation, the role validation and the job
  lookup. Otherwise it is the failure of the first of those checks that fails.
\<close>

theorem isApplicationPageActive_guard:
  assumes "get_prop data ''isApplicationPageActive'' \<noteq> None" and "\<not> isMachine u"
  shows "isl (fst (createJob e u data s))
       \<and> effects (snd (createJob e u data s)) = effects s
       \<and> (hasManagePermission u \<or> isMember e (userId u) (get_prop data ''projectId'') = Inr ()
            \<longrightarrow> fst (createJob e u data s) = Inl field_guard)
       \<and> isl (fst (updateJob e u i data s))
       \<and> effects (snd (updateJob e u i data s)) = effects s
       \<and> (skills_pass e data \<and> roles_pass e data
            \<and> List.find (\<lambda>r. get_prop r ''id'' = Some (JStr i)) (jobs s) \<noteq> None
            \<longrightarrow> fst (updateJob e u i data s) = Inl field_guard)"
proof (intro conjI impI)
  note c = createJob_guarded[OF assms, of e]
  note up = updateJob_guarded[OF assms, of e i]
  show "isl (fst (createJob e u data s))"
    unfolding c by (rule isl_bind) (simp add: io_throw_def)
  have "preserves effects (createJob e u data)"
    unfolding c by (intro preserves_intros checkIsMemberOfProject_effects)
  then show "effects (snd (createJob e u data s)) = effects s"
    by (simp add: preserves_def)
  show "fst (createJob e u data s) = Inl field_guard"
    if "hasManagePermission u \<or> isMember e (userId u) (get_prop data ''projectId'') = Inr ()"
    using that unfolding c by (auto simp: checkIsMemberOfProject_def io_defs)
  show "isl (fst (updateJob e u i data s))"
    unfolding up by (intro isl_bind) (simp add: io_throw_def)
  have "preserves effects (updateJob e u i data)"
    unfolding up
    by (intro preserves_intros validateSkills_effects validateRoles_effects Job_findById_effects)
  then show "effects (snd (updateJob e u i data s)) = effects s"
    by (simp add: preserves_def)
  show "fst (updateJob e u i data s) = Inl field_guard"
    if h: "skills_pass e data \<and> roles_pass e data
            \<and> List.find (\<lambda>r. get_prop r ''id'' = Some (JStr i)) (jobs s) \<noteq> None"
  proof -
    from h have sp: "skills_pass e data" and rp: "roles_pass e data" by simp_all
    from h obtain row where row: "List.find (\<lambda>r. get_prop r ''id'' = Some (JStr i)) (jobs s) = Some row"
      by auto
    have r: "(if truthy (get_prop data ''roleIds'')
              then validateRoles e (uniq (array_items (get_prop data ''roleIds'')))
              else io_return ()) (s\<lparr>calls := calls s @ skill_calls data\<rparr>)
         = (Inr (), s\<lparr>calls := calls s @ skill_calls data @ role_calls data\<rparr>)"
      using rp
      by (auto simp: roles_pass_def role_calls_def validateRoles_def Role_findAll_def io_defs Let_def
               split: sum.splits if_splits)
    show ?thesis
      unfolding up io_bind_def[of "if truthy (get_prop data ''skills'') then _ else _"]
        skills_step_pass[OF sp]
      apply (simp only: prod.case sum.case)
      unfolding io_bind_def[of "if truthy (get_prop data ''roleIds'') then _ else _"] r
      using row by (simp add: Job_findById_def io_defs Let_def)
  qed
qed

text \<open>
  The claim as stated fails for \<^verbatim>\<open>updateJob\<close>: with an unknown skill in the payload the
  failure is the BadRequest of the skill validation, and with an unknown job id it is the
  NotFound of the lookup, not Forbidden.
\<close>

theorem isApplicationPageActive_guard_counterexample:
  "get_prop [(''isApplicationPageActive'', JBool True), (''skills'', JArr [JStr ''bad''])]
      ''isApplicationPageActive'' = Some (JBool True)
   \<and> \<not> isMachine member
   \<and> fst (updateJob env_up member ''j1''
            [(''isApplicationPageActive'', JBool True), (''skills'', JArr [JStr ''bad''])] st0)
       = Inl (BadRequestError ''Invalid skills: [bad]'')
   \<and> httpStatus (BadRequestError ''Invalid skills: [bad]'') = Some 400
   \<and> fst (updateJob env_up member ''j9'' [(''isApplicationPageActive'', JBool True)] st0)
       = Inl (NotFoundError ''id: j9 Job not found'')"
  by (simp add: service_defs fixture_defs io_defs Let_def)

text \<open>
  A member of project 2, creator of \<open>j1\<close>, who is not a machine: both operations are
  refused by the guard and nothing is written or published.
\<close>

theorem isApplicationPageActive_guard_witness:
  "get_prop [(''isApplicationPageActive'', JBool False), (''projectId'', JNum 2),
             (''skills'', JArr [JStr ''s1''])] ''isApplicationPageActive'' \<noteq> None
   \<and> \<not> isMachine member
   \<and> fst (createJob env_up member [(''isApplicationPageActive'', JBool False), (''projectId'', JNum 2),
             (''skills'', JArr [JStr ''s1''])] st0) = Inl field_guard
   \<and> effects (snd (createJob env_up member [(''isApplicationPageActive'', JBool False),
             (''projectId'', JNum 2), (''skills'', JArr [JStr ''s1''])] st0)) = (jobs st0, [], [])
   \<and> fst (updateJob env_up member ''j1'' [(''isApplicationPageActive'', JBool False),
             (''projectId'', JNum 2), (''skills'', JArr [JStr ''s1''])] st0) = Inl field_guard
   \<and> effects (snd (updateJob env_up member ''j1'' [(''isApplicationPageActive'', JBool False),
             (''projectId'', JNum 2), (''skills'', JArr [JStr ''s1''])] st0)) = (jobs st0, [], [])"
proof -
  let ?d = "[(''isApplicationPageActive'', JBool False), (''projectId'', JNum 2),
             (''skills'', JArr [JStr ''s1''])]"
  have a: "get_prop ?d ''isApplicationPageActive'' \<noteq> None"
    by (simp add: get_prop_def)
  have b: "\<not> isMachine member"
    by (simp add: fixture_defs)
  have c: "hasManagePermission member \<or> isMember env_up (userId member) (get_prop ?d ''projectId'') = Inr ()"
    by (simp add: fixture_defs get_prop_def)
  have d: "skills_pass env_up ?d \<and> roles_pass env_up ?d
            \<and> List.find (\<lambda>r. get_prop r ''id'' = Some (JStr ''j1'')) (jobs st0) \<noteq> None"
    by (simp add: skills_pass_def roles_pass_def skill_found_def fixture_defs get_prop_def)
  have e: "effects st0 = (jobs st0, [], [])"
    by (simp add: effects_def fixture_defs)
  show ?thesis
    using a b c d e isApplicationPageActive_guard[OF a b, of env_up st0 "''j1''"]
    by simp
qed

subsection \<open>A publish that fails\<close>

lemma io_bind_InrE:
  assumes "io_bind m f s = (Inr y, s')"
  obtains x s1 where "m s = (Inr x, s1)" and "f x s1 = (Inr y, s')"
  using assms by (auto simp: io_bind_def split: prod.splits sum.splits)

lemma io_bind_throw: "io_bind (io_throw x) f = io_throw x"
  by (rule ext) (simp add: io_bind_def io_throw_def)
lemma createJob_split:
  "createJob e u job =
     io_bind (createJob_write e u job) (\<lambda>created.
     io_bind (postEvent e (TAAS_JOB_CREATE_TOPIC (cfg e)) (JObj created) None) (\<lambda>_.
       io_return created))"
  by (simp add: createJob_def createJob_write_def field_guard_def io_bind_assoc io_bind_throw
        if_distrib[of "\<lambda>m. io_bind m _"] cong: if_cong)

lemma updateJob_split:
  "updateJob e u i data =
     io_bind (updateJob_write e u i data) (\<lambda>(job, updated).
     io_bind (postEvent e (TAAS_JOB_UPDATE_TOPIC (cfg e)) (JObj updated)
                (Some (JObj [(''oldValue'', JObj job)]))) (\<lambda>_.
     io_bind (Job_findById i True) (\<lambda>job.
       io_return (set_prop ''candidates'' (candidates_dataValues (get_prop job ''candidates'')) job))))"
  by (simp add: updateJob_def updateJob_write_def field_guard_def io_bind_assoc io_bind_throw
        io_bind_return Let_def if_distrib[of "\<lambda>m. io_bind m _"] cong: if_cong)

lemma deleteJob_split:
  "deleteJob e u i =
     io_bind (deleteJob_write u i) (\<lambda>_.
       postEvent e (TAAS_JOB_DELETE_TOPIC (cfg e)) (JObj [(''id'', JStr i)]) None)"
  by (simp add: deleteJob_def deleteJob_write_def io_bind_assoc io_bind_throw)

lemma find_SomeD: "List.find P xs = Some x \<Longrightarrow> x \<in> set xs \<and> P x"
  by (induction xs) (auto split: if_splits)

lemma createJob_write_row:
  "createJob_write e u job s = (Inr created, s1) \<Longrightarrow> created \<in> set (jobs s1)"
  by (auto simp: createJob_write_def Job_create_def io_throw_def elim!: io_bind_InrE split: if_splits)

lemma deleteJob_write_row:
  "deleteJob_write u i s = (Inr x, s1) \<Longrightarrow>
     List.find (\<lambda>r. get_prop r ''id'' = Some (JStr i)) (jobs s1) = None"
  by (auto simp: deleteJob_write_def Job_destroy_def Job_findById_def io_throw_def Let_def find_None_iff
           elim!: io_bind_InrE split: if_splits option.splits dest!: find_SomeD)

lemma updateJob_write_row:
  "updateJob_write e u i data s = (Inr (job, updated), s1) \<Longrightarrow> updated \<in> set (jobs s1)"
  by (auto simp: updateJob_write_def Job_update_def Job_findById_def getUserId_def external_def
             io_throw_def io_return_def Let_def
           elim!: io_bind_InrE split: if_splits option.splits dest!: find_SomeD)

text \<open>
  C3, as the code has it. When the write part of \<^verbatim>\<open>createJob\<close>, \<^verbatim>\<open>updateJob\<close> or \<^verbatim>\<open>deleteJob\<close>
  has succeeded and the publish that follows fails, the write is not rolled back: the
  final state is the state after the write with the publish call added, the created or
  updated row is in the table, and the deleted row is not. But the operation fails: the
  caller receives the error of the publish, not the result of the write, and no call
  to the logger is made.
\<close>

theorem publish_failure:
  "(createJob_write e u job s = (Inr created, s1)
      \<and> publish e (TAAS_JOB_CREATE_TOPIC (cfg e)) (JObj created) None = Inl err
    \<longrightarrow> createJob e u job s =
          (Inl err, s1\<lparr>calls := calls s1 @
             [PostEvent (TAAS_JOB_CREATE_TOPIC (cfg e)) (JObj created) None]\<rparr>)
        \<and> created \<in> set (jobs s1))
   \<and> (updateJob_write e u i data s = (Inr (old, updated), s2)
        \<and> publish e (TAAS_JOB_UPDATE_TOPIC (cfg e)) (JObj updated)
             (Some (JObj [(''oldValue'', JObj old)])) = Inl err
      \<longrightarrow> updateJob e u i data s =
          (Inl err, s2\<lparr>calls := calls s2 @
             [PostEvent (TAAS_JOB_UPDATE_TOPIC (cfg e)) (JObj updated)
                (Some (JObj [(''oldValue'', JObj old)]))]\<rparr>)
        \<and> updated \<in> set (jobs s2))
   \<and> (deleteJob_write u i s = (Inr (), s3)
        \<and> publish e (TAAS_JOB_DELETE_TOPIC (cfg e)) (JObj [(''id'', JStr i)]) None = Inl err
      \<longrightarrow> deleteJob e u i s =
          (Inl err, s3\<lparr>calls := calls s3 @
             [PostEvent (TAAS_JOB_DELETE_TOPIC (cfg e)) (JObj [(''id'', JStr i)]) None]\<rparr>)
        \<and> List.find (\<lambda>r. get_prop r ''id'' = Some (JStr i)) (jobs s3) = None)"
  by (auto simp: createJob_split updateJob_split deleteJob_split io_bind_def postEvent_def external_def
        createJob_write_row updateJob_write_row deleteJob_write_row)

text \<open>
  The claim as stated fails: with an event channel that rejects the event, \<^verbatim>\<open>createJob\<close>
  stores the job and then fails with the error of the channel, which it does not log.
\<close>

theorem publish_failure_counterexample:
  "fst (createJob env_mute machine [(''projectId'', JNum 2), (''title'', JStr ''ops''),
          (''skills'', JArr [JStr ''s1''])] st0) = Inl unavailable
   \<and> jobs (snd (createJob env_mute machine [(''projectId'', JNum 2), (''title'', JStr ''ops''),
          (''skills'', JArr [JStr ''s1''])] st0))
      = jobs st0 @ [[(''projectId'', JNum 2), (''title'', JStr ''ops''),
                     (''skills'', JArr [JStr ''s1'']), (''id'', JStr ''minted''),
                     (''createdBy'', JStr ''u0'')]]
   \<and> filter is_log_error_call (calls (snd (createJob env_mute machine [(''projectId'', JNum 2),
          (''title'', JStr ''ops''), (''skills'', JArr [JStr ''s1''])] st0))) = []"
  by (simp add: service_defs fixture_defs io_defs Let_def)

lemmas write_defs = createJob_write_def updateJob_write_def deleteJob_write_def field_guard_def

text \<open>
  With an event channel that rejects every event, a create, an update and a delete all
  fail with the error of the channel, and the table holds the new row, the updated row,
  and no row.
\<close>

theorem publish_failure_witness:
  "fst (createJob env_mute machine [(''projectId'', JNum 2), (''skills'', JArr [JStr ''s1''])] st0)
     = Inl unavailable
   \<and> jobs (snd (createJob env_mute machine [(''projectId'', JNum 2), (''skills'', JArr [JStr ''s1''])] st0))
     = jobs st0 @ [[(''projectId'', JNum 2), (''skills'', JArr [JStr ''s1'']),
                    (''id'', JStr ''minted''), (''createdBy'', JStr ''u0'')]]
   \<and> fst (updateJob env_mute member ''j1'' [(''title'', JStr ''lead'')] st0) = Inl unavailable
   \<and> jobs (snd (updateJob env_mute member ''j1'' [(''title'', JStr ''lead'')] st0))
     = [[(''id'', JStr ''j1''), (''projectId'', JNum 2), (''title'', JStr ''lead''),
         (''createdBy'', JStr ''u7''), (''updatedBy'', JStr ''u7'')]]
   \<and> fst (deleteJob env_mute machine ''j1'' st0) = Inl unavailable
   \<and> jobs (snd (deleteJob env_mute machine ''j1'' st0)) = []"
proof -
  let ?j = "[(''projectId'', JNum 2), (''skills'', JArr [JStr ''s1''])]"
  let ?d = "[(''title'', JStr ''lead'')]"
  obtain created s1 where w1: "createJob_write env_mute machine ?j st0 = (Inr created, s1)"
    and j1: "jobs s1 = jobs st0 @ [[(''projectId'', JNum 2), (''skills'', JArr [JStr ''s1'']),
                    (''id'', JStr ''minted''), (''createdBy'', JStr ''u0'')]]"
    by (simp add: write_defs service_defs fixture_defs io_defs Let_def)
  obtain old updated s2 where w2: "updateJob_write env_mute member ''j1'' ?d st0 = (Inr (old, updated), s2)"
    and j2: "jobs s2 = [[(''id'', JStr ''j1''), (''projectId'', JNum 2), (''title'', JStr ''lead''),
         (''createdBy'', JStr ''u7''), (''updatedBy'', JStr ''u7'')]]"
    by (simp add: write_defs service_defs fixture_defs io_defs Let_def)
  obtain s3 where w3: "deleteJob_write machine ''j1'' st0 = (Inr (), s3)" and j3: "jobs s3 = []"
    by (simp add: write_defs service_defs fixture_defs io_defs Let_def)
  have p: "\<And>t pl ol. publish env_mute t pl ol = Inl unavailable"
    by (simp add: env_mute_def)
  note t = publish_failure[where e=env_mute and err=unavailable and s=st0]
  have "createJob env_mute machine ?j st0 =
          (Inl unavailable, s1\<lparr>calls := calls s1 @
             [PostEvent (TAAS_JOB_CREATE_TOPIC (cfg env_mute)) (JObj created) None]\<rparr>)"
    using t[where u=machine and job="?j" and created=created and ?s1.0=s1] w1 p by blast
  moreover have "updateJob env_mute member ''j1'' ?d st0 =
          (Inl unavailable, s2\<lparr>calls := calls s2 @
             [PostEvent (TAAS_JOB_UPDATE_TOPIC (cfg env_mute)) (JObj updated)
                (Some (JObj [(''oldValue'', JObj old)]))]\<rparr>)"
    using t[where u=member and i="''j1''" and data="?d" and old=old and updated=updated and ?s2.0=s2]
      w2 p by blast
  moreover have "deleteJob env_mute machine ''j1'' st0 =
          (Inl unavailable, s3\<lparr>calls := calls s3 @
             [PostEvent (TAAS_JOB_DELETE_TOPIC (cfg env_mute)) (JObj [(''id'', JStr ''j1'')]) None]\<rparr>)"
    using t[where u=machine and i="''j1''" and ?s3.0=s3] w3 p by blast
  ultimately show ?thesis
    using j1 j2 j3 by simp
qed

subsection \<open>The candidates field of a returned job\<close>

lemma get_prop_assign_absent:
  "get_prop src k = None \<Longrightarrow> get_prop (assign target src) k = get_prop target k"
proof (induction src arbitrary: target)
  case Nil
  then show ?case by (simp add: assign_def)
next
  case (Cons p src)
  obtain k' v' where p: "p = (k', v')" by (cases p)
  from Cons.prems p have ne: "k \<noteq> k'" and rest: "get_prop src k = None"
    by (auto simp: get_prop_def split: if_splits)
  have "get_prop (assign (set_prop k' v' target) src) k = get_prop (set_prop k' v' target) k"
    using Cons.IH[OF rest] .
  then show ?case
    using ne by (simp add: assign_def p get_prop_set_prop)
qed

lemma getJobCandidates_Inr:
  "getJobCandidates e j s = (Inr cs, s') \<Longrightarrow> cs = index_candidates e j"
  by (auto simp: getJobCandidates_def index_candidates_def esClient_search_def io_defs
           split: sum.splits if_splits)

lemma getJob_index_db: "preserves db_of (getJob_index e u i)"
  unfolding getJob_index_def esClient_get_def checkUserPermissionForGetJob_def
    checkIsMemberOfProject_def Let_def
  by (intro preserves_intros preserves_external_db getJobCandidates_db)

lemma getJob_index_Inr:
  assumes "getJob_index e u i s = (Inr r, s')"
  shows "\<exists>job. esGet e (ES_INDEX_JOB (cfg e)) i = Inr job
          \<and> (get_prop (hit_source job) ''candidates'' = None
               \<longrightarrow> get_prop r ''candidates'' = index_field e (hit_id job))"
proof -
  from assms obtain job t1 t2 cs where
      a: "esClient_get e (ES_INDEX_JOB (cfg e)) i s = (Inr job, t1)"
      and c: "getJobCandidates e (hit_id job) t2 = (Inr cs, s')"
      and r: "r = (if cs \<noteq> []
                   then set_prop ''candidates'' (JArr (map JObj cs))
                          (assign [(''id'', JStr (hit_id job))] (hit_source job))
                   else assign [(''id'', JStr (hit_id job))] (hit_source job))"
    unfolding getJob_index_def Let_def
    by (elim io_bind_InrE) (auto simp: io_return_def)
  have g: "esGet e (ES_INDEX_JOB (cfg e)) i = Inr job"
    using a by (auto simp: esClient_get_def external_def)
  have cs: "cs = index_candidates e (hit_id job)"
    using c by (rule getJobCandidates_Inr)
  have "get_prop r ''candidates'' = index_field e (hit_id job)"
    if "get_prop (hit_source job) ''candidates'' = None"
    using get_prop_assign_absent[OF that, of "[(''id'', JStr (hit_id job))]"]
    by (simp add: r cs index_field_def get_prop_set_prop) (simp add: get_prop_def)
  then show ?thesis using g by auto
qed

lemma candidates_of_db: "db_of a = db_of b \<Longrightarrow> candidates_of a = candidates_of b"
  by (rule ext) (simp add: candidates_of_def db_of_def)

lemma getJob_db_Inr:
  assumes "getJob_db e u i s = (Inr r, s')"
  shows "get_prop r ''candidates'' = Some (candidates_of s (Some (JStr i)))"
proof -
  from assms obtain t1 job t2 where
      a: "logInfo ''getJob'' ''try to query db for data'' s = (Inr (), t1)"
      and b: "Job_findById i True t1 = (Inr job, t2)"
      and r: "r = set_prop ''candidates'' (candidates_dataValues (get_prop job ''candidates'')) job"
    unfolding getJob_db_def
    by (elim io_bind_InrE) (auto simp: io_return_def)
  have "db_of t1 = db_of s"
    using a by (auto simp: logInfo_def external_def db_of_def)
  then have c: "candidates_of t1 = candidates_of s"
    by (rule candidates_of_db)
  have "get_prop job ''candidates'' = Some (candidates_of s (Some (JStr i)))"
    using b c by (auto simp: Job_findById_def Let_def get_prop_set_prop split: option.splits)
  then show ?thesis
    by (simp add: r get_prop_set_prop candidates_dataValues_def candidates_of_def)
qed

lemma getJob_run:
  assumes run: "getJob e u i viaDb s = (Inr r, s')"
  shows "(\<not> viaDb \<and> getJob_index e u i s = (Inr r, s'))
       \<or> ((viaDb \<or> isl (fst (getJob_index e u i s)))
           \<and> (\<exists>s1. db_of s1 = db_of s \<and> getJob_db e u i s1 = (Inr r, s')))"
proof (cases viaDb)
  case True
  then have "getJob_db e u i s = (Inr r, s')"
    using run by (simp add: getJob_def io_bind_def io_return_def)
  then show ?thesis using True by blast
next
  case False
  obtain ri s1 where i: "getJob_index e u i s = (ri, s1)"
    by (cases "getJob_index e u i s")
  have d: "db_of s1 = db_of s"
    using getJob_index_db i by (rule preservesD)
  show ?thesis
  proof (cases ri)
    case (Inr x)
    then show ?thesis
      using run False i by (simp add: getJob_def io_defs)
  next
    case (Inl err)
    then have "getJob_db e u i (s1\<lparr>calls := calls s1 @ [LogFullError err ''getJob'']\<rparr>) = (Inr r, s')"
      using run False i
      by (auto simp: getJob_def io_defs logFullError_def split: if_splits)
    moreover have "db_of (s1\<lparr>calls := calls s1 @ [LogFullError err ''getJob'']\<rparr>) = db_of s"
      using d by (simp add: db_of_def)
    ultimately show ?thesis using i Inl by auto
  qed
qed

lemma io_all_map_Inr:
  assumes "\<And>x s r s'. g x s = (Inr r, s') \<Longrightarrow> P x r"
  shows "io_all (map g xs) s = (Inr rs, s') \<Longrightarrow> list_all2 P xs rs"
proof (induction xs arbitrary: s rs s')
  case Nil
  then show ?case by simp
next
  case (Cons x xs)
  obtain r t where g: "g x s = (r, t)" by (cases "g x s")
  obtain rs' t' where a: "io_all (map g xs) t = (rs', t')" by (cases "io_all (map g xs) t")
  from Cons.prems g a obtain y ys where r: "r = Inr y" and rs': "rs' = Inr ys" and rs: "rs = y # ys"
    by (auto split: sum.splits)
  have "P x y" using assms g r by simp
  moreover have "list_all2 P xs ys" using Cons.IH a rs' by simp
  ultimately show ?case by (simp add: rs)
qed

lemma searchJobs_index_Inr:
  assumes "searchJobs_index e c k d pg pp s = (Inr res, s')"
  shows "\<exists>body. esSearch e (ES_INDEX_JOB (cfg e)) (esQuery_body c k d pg pp) = Inr body
           \<and> list_all2 (\<lambda>hit r. get_prop (hit_source hit) ''candidates'' = None
                  \<longrightarrow> get_prop r ''candidates'' = index_field e (hit_id hit))
                (hits body) (result res)"
proof -
  let ?g = "\<lambda>hit::es_hit. let jobRecord = set_prop ''id'' (JStr (hit_id hit)) (hit_source hit) in
                 io_bind (getJobCandidates e (hit_id hit)) (\<lambda>candidates.
                   io_return (if candidates \<noteq> []
                              then set_prop ''candidates'' (JArr (map JObj candidates)) jobRecord
                              else jobRecord))"
  let ?P = "\<lambda>(hit::es_hit) r. get_prop (hit_source hit) ''candidates'' = None
                  \<longrightarrow> get_prop r ''candidates'' = index_field e (hit_id hit)"
  from assms obtain t1 body t2 rs where
      b: "esClient_search e (ES_INDEX_JOB (cfg e)) (esQuery_body c k d pg pp) t1 = (Inr body, t2)"
      and a: "io_all (map ?g (hits body)) t2 = (Inr rs, s')"
      and r: "result res = rs"
    unfolding searchJobs_index_def Let_def
    by (elim io_bind_InrE) (auto simp: io_return_def)
  have g: "?P hit r" if "?g hit t = (Inr r, t')" for hit r t t'
  proof -
    from that obtain cs where c: "cs = index_candidates e (hit_id hit)"
      and r: "r = (if cs \<noteq> []
                   then set_prop ''candidates'' (JArr (map JObj cs))
                          (set_prop ''id'' (JStr (hit_id hit)) (hit_source hit))
                   else set_prop ''id'' (JStr (hit_id hit)) (hit_source hit))"
      by (auto simp: Let_def io_return_def elim!: io_bind_InrE dest!: getJobCandidates_Inr)
    show ?thesis
      by (simp add: r c index_field_def get_prop_set_prop)
  qed
  have "list_all2 ?P (hits body) rs"
  proof (rule io_all_map_Inr[where g="?g" and P="?P" and s=t2 and s'=s'])
    show "io_all (map ?g (hits body)) t2 = (Inr rs, s')"
      by (rule a)
  next
    fix x t r t'
    assume "?g x t = (Inr r, t')"
    then show "?P x r" by (rule g)
  qed
  moreover have "esSearch e (ES_INDEX_JOB (cfg e)) (esQuery_body c k d pg pp) = Inr body"
    using b by (auto simp: esClient_search_def external_def)
  ultimately show ?thesis using r by auto
qed

lemma searchJobs_db_Inr:
  assumes "searchJobs_db c k d pg pp s = (Inr res, s')"
  shows "list_all (\<lambda>r. get_prop r ''candidates'' = Some (candidates_of s (get_prop r ''id'')))
           (result res)"
  using searchJobs_db_fields[OF assms]
  by (simp add: list_all_iff get_prop_set_prop)

text \<open>
  The two paths differ. A job answered by the index, by \<^verbatim>\<open>getJob\<close> or in a result of
  \<^verbatim>\<open>searchJobs\<close>, has the \<^verbatim>\<open>candidates\<close> key exactly when the candidate lookup of the index
  returns a non-empty list, and then with that whole list (for an index document that has
  no such key of its own). A job answered by the relational store, by \<^verbatim>\<open>getJob\<close> or by the
  fallback of \<^verbatim>\<open>searchJobs\<close>, always has the key, with the list of its candidate rows,
  which is the empty list for a job without candidates.
\<close>

theorem candidates_field:
  "(getJob e u i viaDb s = (Inr r, s')
    \<longrightarrow> (\<not> viaDb \<and> \<not> isl (fst (getJob_index e u i s))
          \<and> (\<exists>job. esGet e (ES_INDEX_JOB (cfg e)) i = Inr job
              \<and> (get_prop (hit_source job) ''candidates'' = None
                   \<longrightarrow> get_prop r ''candidates'' = index_field e (hit_id job))))
        \<or> ((viaDb \<or> isl (fst (getJob_index e u i s)))
            \<and> get_prop r ''candidates'' = Some (candidates_of s (Some (JStr i)))))
   \<and> (searchJobs e u c options s = (Inr res, s'')
      \<longrightarrow> (fromDb res = None
            \<and> (\<exists>body. esSearch e (ES_INDEX_JOB (cfg e))
                   (esQuery_body c (searchJobs_sortBy c) (searchJobs_sortOrder c) (searchJobs_page c)
                      (searchJobs_perPage c options)) = Inr body
                 \<and> list_all2 (\<lambda>hit r. get_prop (hit_source hit) ''candidates'' = None
                        \<longrightarrow> get_prop r ''candidates'' = index_field e (hit_id hit))
                      (hits body) (result res)))
          \<or> (fromDb res = Some True
              \<and> list_all (\<lambda>r. get_prop r ''candidates'' = Some (candidates_of s (get_prop r ''id'')))
                   (result res)))"
proof (intro conjI impI)
  assume "getJob e u i viaDb s = (Inr r, s')"
  from getJob_run[OF this] show "(\<not> viaDb \<and> \<not> isl (fst (getJob_index e u i s))
          \<and> (\<exists>job. esGet e (ES_INDEX_JOB (cfg e)) i = Inr job
              \<and> (get_prop (hit_source job) ''candidates'' = None
                   \<longrightarrow> get_prop r ''candidates'' = index_field e (hit_id job))))
        \<or> ((viaDb \<or> isl (fst (getJob_index e u i s)))
            \<and> get_prop r ''candidates'' = Some (candidates_of s (Some (JStr i))))"
  proof
    assume a: "\<not> viaDb \<and> getJob_index e u i s = (Inr r, s')"
    then have "\<not> isl (fst (getJob_index e u i s))" by simp
    then show ?thesis using a getJob_index_Inr by blast
  next
    assume "(viaDb \<or> isl (fst (getJob_index e u i s)))
           \<and> (\<exists>s1. db_of s1 = db_of s \<and> getJob_db e u i s1 = (Inr r, s'))"
    then obtain s1 where p: "viaDb \<or> isl (fst (getJob_index e u i s))"
      and d: "db_of s1 = db_of s" and g: "getJob_db e u i s1 = (Inr r, s')"
      by blast
    show ?thesis
      using p getJob_db_Inr[OF g] candidates_of_db[OF d] by simp
  qed
next
  assume run: "searchJobs e u c options s = (Inr res, s'')"
  let ?k = "searchJobs_sortBy c" and ?d = "searchJobs_sortOrder c"
  let ?pg = "searchJobs_page c" and ?pp = "searchJobs_perPage c options"
  from searchJobs_run[OF run] obtain s1 where db1: "db_of s1 = db_of s"
    and alt: "searchJobs_index e c ?k ?d ?pg ?pp s1 = (Inr res, s'')
      \<or> (\<exists>err s2. searchJobs_index e c ?k ?d ?pg ?pp s1 = (Inl err, s2)
           \<and> searchJobs_db c ?k ?d ?pg ?pp (s2\<lparr>calls := calls s2 @ [LogFullError err ''searchJobs'']\<rparr>)
               = (Inr res, s''))"
    by blast
  from alt show "(fromDb res = None
            \<and> (\<exists>body. esSearch e (ES_INDEX_JOB (cfg e)) (esQuery_body c ?k ?d ?pg ?pp) = Inr body
                 \<and> list_all2 (\<lambda>hit r. get_prop (hit_source hit) ''candidates'' = None
                        \<longrightarrow> get_prop r ''candidates'' = index_field e (hit_id hit))
                      (hits body) (result res)))
          \<or> (fromDb res = Some True
              \<and> list_all (\<lambda>r. get_prop r ''candidates'' = Some (candidates_of s (get_prop r ''id'')))
                   (result res))"
  proof
    assume i: "searchJobs_index e c ?k ?d ?pg ?pp s1 = (Inr res, s'')"
    show ?thesis
      using searchJobs_index_fields[OF i] searchJobs_index_Inr[OF i] by blast
  next
    assume "\<exists>err s2. searchJobs_index e c ?k ?d ?pg ?pp s1 = (Inl err, s2)
           \<and> searchJobs_db c ?k ?d ?pg ?pp (s2\<lparr>calls := calls s2 @ [LogFullError err ''searchJobs'']\<rparr>)
               = (Inr res, s'')"
    then obtain err s2 where i: "searchJobs_index e c ?k ?d ?pg ?pp s1 = (Inl err, s2)"
      and d: "searchJobs_db c ?k ?d ?pg ?pp (s2\<lparr>calls := calls s2 @ [LogFullError err ''searchJobs'']\<rparr>)
               = (Inr res, s'')"
      by blast
    have "db_of s2 = db_of s1"
      using searchJobs_index_db i by (rule preservesD)
    then have "db_of (s2\<lparr>calls := calls s2 @ [LogFullError err ''searchJobs'']\<rparr>) = db_of s"
      using db1 by (simp add: db_of_def)
    from candidates_of_db[OF this] searchJobs_db_Inr[OF d] searchJobs_db_fields[OF d]
    show ?thesis by simp
  qed
qed

text \<open>
  From the index, \<open>j1\<close> comes without the key when it has no candidate and with its one
  candidate when it has one; from the relational store it comes with the key in both
  cases.
\<close>

theorem candidates_field_examples:
  "(\<exists>r s'. getJob env_up machine ''j1'' False st0 = (Inr r, s')
        \<and> index_candidates env_up ''j1'' = [] \<and> get_prop r ''candidates'' = None)
   \<and> (\<exists>r s'. getJob env_staffed machine ''j1'' False st0 = (Inr r, s')
        \<and> get_prop r ''candidates''
            = Some (JArr [JObj [(''jobId'', JStr ''j1''), (''status'', JStr ''open''), (''id'', JStr ''c1'')]]))
   \<and> (\<exists>r s'. getJob env_up machine ''j1'' True st0 = (Inr r, s')
        \<and> get_prop r ''candidates'' = Some (JArr []))
   \<and> (\<exists>r s'. getJob env_up machine ''j1'' True st_staffed = (Inr r, s')
        \<and> get_prop r ''candidates''
            = Some (JArr [JObj [(''id'', JStr ''c1''), (''jobId'', JStr ''j1''), (''status'', JStr ''open'')]]))
   \<and> (\<exists>res s'. searchJobs env_up machine crit0 \<lparr>returnAll = False\<rparr> st0 = (Inr res, s')
        \<and> fromDb res = None \<and> map (\<lambda>r. get_prop r ''candidates'') (result res) = [None])
   \<and> (\<exists>res s'. searchJobs env_down machine crit0 \<lparr>returnAll = False\<rparr> st0 = (Inr res, s')
        \<and> fromDb res = Some True \<and> map (\<lambda>r. get_prop r ''candidates'') (result res) = [Some (JArr [])])"
proof -
  note t = candidates_field
  let ?src = "[(''projectId'', JNum 2), (''title'', JStr ''dev'')]"
  have ic: "index_candidates env_up ''j1'' = []"
    by (simp add: index_candidates_def candidateQuery_def fixture_defs)
  have ifs: "index_field env_staffed ''j1''
      = Some (JArr [JObj [(''jobId'', JStr ''j1''), (''status'', JStr ''open''), (''id'', JStr ''c1'')]])"
    by (simp add: index_field_def index_candidates_def candidateQuery_def env_staffed_def fixture_defs)
  have g1: "esGet env_up (ES_INDEX_JOB (cfg env_up)) ''j1'' = Inr \<lparr>hit_id = ''j1'', hit_source = ?src\<rparr>"
    by (simp add: fixture_defs)
  have g2: "esGet env_staffed (ES_INDEX_JOB (cfg env_staffed)) ''j1''
              = Inr \<lparr>hit_id = ''j1'', hit_source = ?src\<rparr>"
    by (simp add: env_staffed_def fixture_defs)
  have nc: "get_prop ?src ''candidates'' = None"
    by (simp add: get_prop_def)
  have c0: "candidates_of st0 (Some (JStr ''j1'')) = JArr []"
    by (simp add: candidates_of_def fixture_defs)
  have c1: "candidates_of st_staffed (Some (JStr ''j1''))
      = JArr [JObj [(''id'', JStr ''c1''), (''jobId'', JStr ''j1''), (''status'', JStr ''open'')]]"
    by (simp add: candidates_of_def st_staffed_def fixture_defs get_prop_def)
  obtain r1 s1 where run1: "getJob env_up machine ''j1'' False st0 = (Inr r1, s1)"
    by (simp add: service_defs fixture_defs io_defs Let_def)
  obtain r2 s2 where run2: "getJob env_staffed machine ''j1'' False st0 = (Inr r2, s2)"
    by (simp add: service_defs env_staffed_def fixture_defs io_defs Let_def)
  obtain r3 s3 where run3: "getJob env_up machine ''j1'' True st0 = (Inr r3, s3)"
    by (simp add: service_defs fixture_defs io_defs Let_def)
  obtain r4 s4 where run4: "getJob env_up machine ''j1'' True st_staffed = (Inr r4, s4)"
    by (simp add: service_defs st_staffed_def fixture_defs io_defs Let_def)
  obtain r5 s5 where run5: "searchJobs env_up machine crit0 \<lparr>returnAll = False\<rparr> st0 = (Inr r5, s5)"
    and f5: "fromDb r5 = None" "map (\<lambda>r. get_prop r ''candidates'') (result r5) = [None]"
    by (simp add: service_defs fixture_defs io_defs Let_def)
  obtain r6 s6 where run6: "searchJobs env_down machine crit0 \<lparr>returnAll = False\<rparr> st0 = (Inr r6, s6)"
    and f6: "fromDb r6 = Some True" "length (result r6) = 1"
    by (simp add: service_defs fixture_defs io_defs Let_def)
  have i1: "\<not> isl (fst (getJob_index env_up machine ''j1'' st0))"
    by (simp add: service_defs fixture_defs io_defs Let_def)
  have i2: "\<not> isl (fst (getJob_index env_staffed machine ''j1'' st0))"
    by (simp add: service_defs env_staffed_def fixture_defs io_defs Let_def)
  have a1: "get_prop r1 ''candidates'' = None"
    using t[THEN conjunct1, rule_format, OF run1] g1 nc ic i1 by (auto simp: index_field_def)
  have a2: "get_prop r2 ''candidates''
      = Some (JArr [JObj [(''jobId'', JStr ''j1''), (''status'', JStr ''open''), (''id'', JStr ''c1'')]])"
    using t[THEN conjunct1, rule_format, OF run2] g2 nc ifs i2 by auto
  have a3: "get_prop r3 ''candidates'' = Some (JArr [])"
    using t[THEN conjunct1, rule_format, OF run3] c0 by auto
  have a4: "get_prop r4 ''candidates''
      = Some (JArr [JObj [(''id'', JStr ''c1''), (''jobId'', JStr ''j1''), (''status'', JStr ''open'')]])"
    using t[THEN conjunct1, rule_format, OF run4] c1 by auto
  have a6: "map (\<lambda>r. get_prop r ''candidates'') (result r6) = [Some (JArr [])]"
    using t[THEN conjunct2, rule_format, OF run6] f6
    by (cases "result r6") (auto simp: candidates_of_def fixture_defs)
  show ?thesis
  proof (intro conjI)
    show "\<exists>r s'. getJob env_up machine ''j1'' False st0 = (Inr r, s')
        \<and> index_candidates env_up ''j1'' = [] \<and> get_prop r ''candidates'' = None"
      using run1 ic a1 by (intro exI conjI)
    show "\<exists>r s'. getJob env_staffed machine ''j1'' False st0 = (Inr r, s')
        \<and> get_prop r ''candidates''
            = Some (JArr [JObj [(''jobId'', JStr ''j1''), (''status'', JStr ''open''), (''id'', JStr ''c1'')]])"
      using run2 a2 by (intro exI conjI)
    show "\<exists>r s'. getJob env_up machine ''j1'' True st0 = (Inr r, s')
        \<and> get_prop r ''candidates'' = Some (JArr [])"
      using run3 a3 by (intro exI conjI)
    show "\<exists>r s'. getJob env_up machine ''j1'' True st_staffed = (Inr r, s')
        \<and> get_prop r ''candidates''
            = Some (JArr [JObj [(''id'', JStr ''c1''), (''jobId'', JStr ''j1''), (''status'', JStr ''open'')]])"
      using run4 a4 by (intro exI conjI)
    show "\<exists>res s'. searchJobs env_up machine crit0 \<lparr>returnAll = False\<rparr> st0 = (Inr res, s')
        \<and> fromDb res = None \<and> map (\<lambda>r. get_prop r ''candidates'') (result res) = [None]"
      using run5 f5 by (intro exI conjI)
    show "\<exists>res s'. searchJobs env_down machine crit0 \<lparr>returnAll = False\<rparr> st0 = (Inr res, s')
        \<and> fromDb res = Some True \<and> map (\<lambda>r. get_prop r ''candidates'') (result res) = [Some (JArr [])]"
      using run6 f6(1) a6 by (intro exI conjI)
  qed
qed

text \<open>
  C8. The claim is that a job without candidates is returned without the \<^verbatim>\<open>candidates\<close>
  key, whichever path answers. The job \<open>j1\<close> has no candidates. Read through the index,
  it is returned without the key; read by \<^verbatim>\<open>getJob\<close> from the relational store, and read
  by the fallback of \<^verbatim>\<open>searchJobs\<close>, it is returned with the key and an empty list.
\<close>

theorem relational_path_empty_candidates:
  "jobCandidates st0 = [] \<and> index_candidates env_up ''j1'' = []
   \<and> fst (getJob env_up machine ''j1'' False st0)
       = Inr [(''id'', JStr ''j1''), (''projectId'', JNum 2), (''title'', JStr ''dev'')]
   \<and> fst (getJob env_up machine ''j1'' True st0)
       = Inr [(''id'', JStr ''j1''), (''projectId'', JNum 2), (''title'', JStr ''dev''),
              (''createdBy'', JStr ''u7''), (''candidates'', JArr [])]
   \<and> fst (searchJobs env_down machine crit0 \<lparr>returnAll = False\<rparr> st0)
       = Inr \<lparr>fromDb = Some True, total = 1, page = 1, perPage = 20,
              result = [[(''id'', JStr ''j1''), (''projectId'', JNum 2), (''title'', JStr ''dev''),
                         (''createdBy'', JStr ''u7''), (''candidates'', JArr [])]]\<rparr>"
  by (simp add: service_defs fixture_defs io_defs Let_def index_candidates_def)

subsection \<open>The fallback of searchJobs\<close>

lemma searchJobs_page_pos: "1 \<le> searchJobs_page c"
  by (simp add: searchJobs_page_def split: option.splits)

lemma criteria_prop_projectIds: "criteria_prop (c\<lparr>projectIds := x\<rparr>) = criteria_prop c"
  by (rule ext) (simp add: criteria_prop_def)

lemma db_filter_projectIds: "db_filter (c\<lparr>projectIds := x\<rparr>) = db_filter c"
  by (simp add: db_filter_def pick_def criteria_prop_projectIds)

text \<open>
  When the index query fails for a caller who passes the permission check, the error is
  logged and not raised, and the result is the page of the relational rows that satisfy
  the fallback filter, tagged \<open>fromDb\<close>. The fallback filter does not depend on
  \<^verbatim>\<open>criteria.projectIds\<close>.
\<close>

lemma searchJobs_index_failure:
  assumes "hasManagePermission u \<or> isMachine u \<or> isConnectManager u \<or> returnAll options"
    and "esSearch e (ES_INDEX_JOB (cfg e))
           (esQuery_body c (searchJobs_sortBy c) (searchJobs_sortOrder c) (searchJobs_page c)
              (searchJobs_perPage c options)) = Inl err"
  shows "searchJobs e u c options s =
     (let body = esQuery_body c (searchJobs_sortBy c) (searchJobs_sortOrder c) (searchJobs_page c)
                   (searchJobs_perPage c options);
          opts = \<lparr>f_where = db_filter c,
                  f_offset = (searchJobs_page c - 1) * searchJobs_perPage c options,
                  f_limit = searchJobs_perPage c options,
                  f_order = (searchJobs_sortBy c, searchJobs_sortOrder c)\<rparr>;
          rows = map (\<lambda>r. set_prop ''candidates'' (candidates_of s (get_prop r ''id'')) r)
                   (take (nat (f_limit opts)) (drop (nat (f_offset opts))
                      (order_rows (f_order opts) (filter (eval_where (db_filter c)) (jobs s)))))
      in (Inr \<lparr>fromDb = Some True, total = int (length rows), page = searchJobs_page c,
               perPage = searchJobs_perPage c options, result = rows\<rparr>,
          s\<lparr>calls := calls s @
               [LogDebug ''searchJobs'' (JObj [(''index'', JStr (ES_INDEX_JOB (cfg e))), (''body'', body)]),
                EsSearch (ES_INDEX_JOB (cfg e)) body,
                LogFullError err ''searchJobs'',
                LogInfo ''searchJobs'' ''fallback to DB query'',
                JobFindAll opts]\<rparr>))"
proof -
  have o: "\<not> ((searchJobs_page c - 1) * searchJobs_perPage c options < 0
             \<or> searchJobs_perPage c options < 0)"
    using searchJobs_page_pos[of c] searchJobs_perPage_pos[of c options]
    by (simp add: mult_less_0_iff)
  show ?thesis
    using assms o
    by (auto simp: searchJobs_def searchJobs_index_def searchJobs_db_def esClient_search_def
          logDebug_def logInfo_def logFullError_def Job_findAll_def candidates_of_def io_defs Let_def)
qed

text \<open>
  C1. The claim is that after an index failure the same criteria are evaluated against
  the relational store. A search for the projects \<open>[3]\<close> by a machine caller, with the index
  out of reach and a store holding \<open>j1\<close> of project 2 and \<open>j2\<close> of project 3, returns both
  jobs, tagged \<open>fromDb\<close>, with the index error logged: the query sent to the index
  restricts the project to 3, the filter sent to the relational store is empty, and the
  rows of the store whose project is among \<open>[3]\<close> are \<open>j2\<close> alone.
\<close>

theorem searchJobs_fallback_ignores_projectIds:
  "searchJobs env_down machine (crit0\<lparr>projectIds := Some [3]\<rparr>) \<lparr>returnAll = False\<rparr> st2 =
     (Inr \<lparr>fromDb = Some True, total = 2, page = 1, perPage = 20,
           result = [[(''id'', JStr ''j2''), (''projectId'', JNum 3), (''title'', JStr ''qa''),
                      (''createdBy'', JStr ''u0''), (''candidates'', JArr [])],
                     [(''id'', JStr ''j1''), (''projectId'', JNum 2), (''title'', JStr ''dev''),
                      (''createdBy'', JStr ''u7''), (''candidates'', JArr [])]]\<rparr>,
      st2\<lparr>calls :=
        [LogDebug ''searchJobs'' (JObj [(''index'', JStr ''job''), (''body'',
           esQuery_body (crit0\<lparr>projectIds := Some [3]\<rparr>) ''id'' ''desc'' 1 20)]),
         EsSearch ''job'' (esQuery_body (crit0\<lparr>projectIds := Some [3]\<rparr>) ''id'' ''desc'' 1 20),
         LogFullError unavailable ''searchJobs'',
         LogInfo ''searchJobs'' ''fallback to DB query'',
         JobFindAll \<lparr>f_where = \<lparr>op_and = [], columns = []\<rparr>, f_offset = 0, f_limit = 20,
                     f_order = (''id'', ''desc'')\<rparr>]\<rparr>)
   \<and> filter (\<lambda>r. get_prop r ''projectId'' \<in> set (map (\<lambda>n. Some (JNum n)) [3])) (jobs st2)
       = [[(''id'', JStr ''j2''), (''projectId'', JNum 3), (''title'', JStr ''qa''),
           (''createdBy'', JStr ''u0'')]]
   \<and> esQuery_body (crit0\<lparr>projectIds := Some [3]\<rparr>) ''id'' ''desc'' 1 20 =
       JObj [(''query'', JObj [(''bool'', JObj [(''must'', JArr []),
               (''filter'', JArr [JObj [(''terms'', JObj [(''projectId'', JArr [JNum 3])])]])])]),
             (''from'', JNum 0), (''size'', JNum 20),
             (''sort'', JArr [JObj [(''_id'', JObj [(''order'', JStr ''desc'')])]])]"
proof -
  let ?c = "crit0\<lparr>projectIds := Some [3]\<rparr>"
  have k: "searchJobs_sortBy ?c = ''id''" "searchJobs_sortOrder ?c = ''desc''"
    "searchJobs_page ?c = 1" "searchJobs_perPage ?c \<lparr>returnAll = False\<rparr> = 20"
    by (simp_all add: searchJobs_sortBy_def searchJobs_sortOrder_def searchJobs_page_def
        searchJobs_perPage_def crit0_def)
  have p: "hasManagePermission machine \<or> isMachine machine \<or> isConnectManager machine
           \<or> returnAll \<lparr>returnAll = False\<rparr>"
    by (simp add: machine_def)
  have f: "esSearch env_down (ES_INDEX_JOB (cfg env_down))
             (esQuery_body ?c (searchJobs_sortBy ?c) (searchJobs_sortOrder ?c) (searchJobs_page ?c)
                (searchJobs_perPage ?c \<lparr>returnAll = False\<rparr>)) = Inl unavailable"
    by (simp add: env_down_def)
  have d: "db_filter ?c = \<lparr>op_and = [], columns = []\<rparr>"
    by (simp add: db_filter_projectIds) (simp add: db_filter_def pick_def criteria_prop_def crit0_def
        List.map_filter_def)
  have i: "ES_INDEX_JOB (cfg env_down) = ''job''"
    by (simp add: env_down_def env_up_def cfg0_def)
  show ?thesis
    using searchJobs_index_failure[OF p f, of st2]
    apply (simp add: k d i Let_def)
    apply (simp add: st2_def st0_def eval_where_def order_rows_def candidates_of_def get_prop_def
        esQuery_body_def pick_def criteria_prop_def crit0_def List.map_filter_def)
    done
qed

end
